theory Spec2Isabelle
  imports Main "HOL-Library.AList" "HOL-Library.Word"
begin

section \<open>The event package: data model\<close>

text \<open>
  Shallow embedding of package \<open>event\<close> (the event and lock subsystem).  Go strings are
  \<open>string\<close>, a Go \<open>int\<close> that is only compared is \<open>int\<close>, a \<open>time.Time\<close> is the number of
  nanoseconds since Go's zero time (so \<open>IsZero t\<close> is \<open>t = 0\<close>), a \<open>time.Duration\<close> is a number of
  nanoseconds, a nil-able slice or pointer is an \<open>option\<close>, and a \<open>bson.M\<close> is an association
  list updated with \<open>AList.update\<close> (assignment to an existing key replaces its value).
\<close>

type_synonym TargetType = string
type_synonym ownerType = string
type_synonym kindType = string
type_synonym ObjectId = string
type_synonym byte = "8 word"

definition lockUpdateInterval :: int where
  "lockUpdateInterval = 30 * 1000000000"

definition lockExpireTimeout :: int where
  "lockExpireTimeout = 5 * 60 * 1000000000"

definition filterMaxLimit :: int where
  "filterMaxLimit = 100"

definition OwnerTypeUser :: ownerType where "OwnerTypeUser = ''user''"
definition OwnerTypeApp :: ownerType where "OwnerTypeApp = ''app''"
definition OwnerTypeInternal :: ownerType where "OwnerTypeInternal = ''internal''"

definition KindTypePermission :: kindType where "KindTypePermission = ''permission''"
definition KindTypeInternal :: kindType where "KindTypeInternal = ''internal''"

definition TargetTypeApp :: TargetType where "TargetTypeApp = ''app''"
definition TargetTypeNode :: TargetType where "TargetTypeNode = ''node''"
definition TargetTypeContainer :: TargetType where "TargetTypeContainer = ''container''"
definition TargetTypePool :: TargetType where "TargetTypePool = ''pool''"
definition TargetTypeService :: TargetType where "TargetTypeService = ''service''"
definition TargetTypeServiceInstance :: TargetType where
  "TargetTypeServiceInstance = ''service-instance''"
definition TargetTypeTeam :: TargetType where "TargetTypeTeam = ''team''"
definition TargetTypeUser :: TargetType where "TargetTypeUser = ''user''"
definition TargetTypeIaas :: TargetType where "TargetTypeIaas = ''iaas''"
definition TargetTypeRole :: TargetType where "TargetTypeRole = ''role''"
definition TargetTypePlatform :: TargetType where "TargetTypePlatform = ''platform''"
definition TargetTypePlan :: TargetType where "TargetTypePlan = ''plan''"
definition TargetTypeNodeContainer :: TargetType where
  "TargetTypeNodeContainer = ''node-container''"
definition TargetTypeInstallHost :: TargetType where
  "TargetTypeInstallHost = ''install-host''"
definition TargetTypeEventBlock :: TargetType where
  "TargetTypeEventBlock = ''event-block''"

text \<open>The fifteen declared target tags, in declaration order.\<close>

definition declaredTargetTypes :: "TargetType list" where
  "declaredTargetTypes =
     [TargetTypeApp, TargetTypeNode, TargetTypeContainer, TargetTypePool, TargetTypeService,
      TargetTypeServiceInstance, TargetTypeTeam, TargetTypeUser, TargetTypeIaas,
      TargetTypeRole, TargetTypePlatform, TargetTypePlan, TargetTypeNodeContainer,
      TargetTypeInstallHost, TargetTypeEventBlock]"

record Target =
  Target_Type :: TargetType
  Target_Value :: string

definition zeroTarget :: Target where
  "zeroTarget = \<lparr>Target_Type = [], Target_Value = []\<rparr>"

definition Target_IsValid :: "Target \<Rightarrow> bool" where
  "Target_IsValid t = (Target_Type t \<noteq> [])"

record eventID =
  eventID_Target :: Target
  eventID_ObjId :: ObjectId

text \<open>
  The primary key \<open>_id\<close> as the store sees it: the value \<open>eventID.GetBSON\<close> serialises, a raw
  ObjectId when \<open>ObjId\<close> is not empty and the target sub-document otherwise.
\<close>

datatype docId = IdObj ObjectId | IdTarget Target

definition eventID_GetBSON :: "eventID \<Rightarrow> docId" where
  "eventID_GetBSON i =
     (if length (eventID_ObjId i) \<noteq> 0 then IdObj (eventID_ObjId i)
      else IdTarget (eventID_Target i))"

text \<open>\<open>eventID.SetBSON\<close> on a zero \<open>eventID\<close>: what a row read from the store has as ID.\<close>

definition eventID_SetBSON :: "docId \<Rightarrow> eventID" where
  "eventID_SetBSON k =
     (case k of
        IdTarget t \<Rightarrow> \<lparr>eventID_Target = t, eventID_ObjId = []\<rparr>
      | IdObj oid \<Rightarrow> \<lparr>eventID_Target = zeroTarget, eventID_ObjId = oid\<rparr>)"

record Raw =
  Raw_Kind :: byte
  Raw_Data :: "byte list"

definition emptyRaw :: Raw where
  "emptyRaw = \<lparr>Raw_Kind = 0, Raw_Data = []\<rparr>"

record Owner =
  Owner_Type :: ownerType
  Owner_Name :: string

record Kind =
  Kind_Type :: kindType
  Kind_Name :: string

record cancelInfo =
  cancelInfo_Owner :: string
  cancelInfo_StartTime :: int
  cancelInfo_AckTime :: int
  cancelInfo_Reason :: string
  cancelInfo_Asked :: bool
  cancelInfo_Canceled :: bool

text \<open>
  Package \<open>permission\<close> is not part of the sources.  A \<open>PermissionScheme\<close> is used only
  through \<open>FullName()\<close>, so it is represented by that dotted name; a \<open>PermissionContext\<close> is
  the pair the code reads (\<open>CtxType\<close>, \<open>Value\<close>).
\<close>

type_synonym PermissionScheme = string
type_synonym contextType = string

record PermissionContext =
  PermissionContext_CtxType :: contextType
  PermissionContext_Value :: string

record Permission =
  Permission_Scheme :: PermissionScheme
  Permission_Context :: PermissionContext

text \<open>Modelled from the spec: the context type \<open>permission.CtxGlobal\<close>, the tag of the
  \<open>global\<close> context, declared in package \<open>permission\<close>.\<close>

definition CtxGlobal :: contextType where
  "CtxGlobal = ''global''"

record AllowedPermission =
  AllowedPermission_Scheme :: string
  AllowedPermission_Contexts :: "PermissionContext list"

record eventData =
  ID :: eventID
  UniqueID :: ObjectId
  StartTime :: int
  EndTime :: int
  Target :: Target
  StartCustomData :: Raw
  EndCustomData :: Raw
  OtherCustomData :: Raw
  Kind :: Kind
  Owner :: Owner
  LockUpdateTime :: int
  Error :: string
  Log :: string
  RemoveDate :: int
  CancelInfo :: cancelInfo
  Cancelable :: bool
  Running :: bool
  Allowed :: AllowedPermission
  AllowedCancel :: AllowedPermission

text \<open>\<open>Event\<close> embeds \<open>eventData\<close> and owns the log buffer (the external log writer only
  receives copies of what is written and is left out).\<close>

record Event =
  eventData :: eventData
  logBuffer :: string

section \<open>Values handed to external code\<close>

record ThrottlingSpec =
  ThrottlingSpec_TargetType :: TargetType
  ThrottlingSpec_KindName :: string
  ThrottlingSpec_Max :: int
  ThrottlingSpec_Time :: int

text \<open>
  Custom data is an \<open>interface{}\<close> that the code inspects by reflection only.  A non-pointer
  value is its \<open>reflect.Kind\<close> together with an opaque rendering of its contents; a pointer
  is \<open>GPtr\<close>, nil (\<open>None\<close>) or pointing to a value.  The nil interface is \<open>None\<close> of
  \<open>gval option\<close>.  Kind \<open>Ptr\<close> is the constructor \<open>GPtr\<close>.
\<close>

datatype reflectKind =
    KInvalid | KBool | KInt | KInt8 | KInt16 | KInt32 | KInt64
  | KUint | KUint8 | KUint16 | KUint32 | KUint64 | KUintptr
  | KFloat32 | KFloat64 | KComplex64 | KComplex128
  | KArray | KChan | KFunc | KInterface | KMap | KSlice | KString | KStruct
  | KUnsafePointer

datatype gval = GVal reflectKind string | GPtr "gval option"

text \<open>Arguments of \<open>fmt.Sprintf\<close> and \<open>errors.Errorf\<close>; the formatting itself is external.\<close>

datatype fmtarg = FStr string | FInt int | FDur int | FGo "gval option" | FEvent Event

text \<open>
  Go \<open>error\<close> values.  \<open>ErrNew\<close> is a sentinel made by \<open>errors.New\<close>, \<open>ErrErrorf\<close> an error
  made by \<open>errors.Errorf\<close> (format and arguments), \<open>ErrNotFound\<close> is \<open>mgo.ErrNotFound\<close>,
  \<open>ErrDup\<close> an error for which \<open>mgo.IsDup\<close> holds (with the message of the store),
  \<open>ErrStore\<close> any other failure reported by the store driver.
\<close>

datatype error =
    ErrValidation string
  | ErrNew string
  | ErrErrorf string "fmtarg list"
  | ErrThrottled ThrottlingSpec Target
  | ErrEventLocked Event
  | ErrNotFound
  | ErrDup string
  | ErrStore string

definition errInvalidQuery :: error where "errInvalidQuery = ErrNew ''invalid query''"
definition ErrNotCancelable :: error where "ErrNotCancelable = ErrNew ''event is not cancelable''"
definition ErrEventNotFound :: error where "ErrEventNotFound = ErrNew ''event not found''"
definition ErrNoTarget :: error where "ErrNoTarget = ErrValidation ''event target is mandatory''"
definition ErrNoKind :: error where "ErrNoKind = ErrValidation ''event kind is mandatory''"
definition ErrNoOwner :: error where "ErrNoOwner = ErrValidation ''event owner is mandatory''"
definition ErrNoOpts :: error where "ErrNoOpts = ErrValidation ''event opts is mandatory''"
definition ErrNoInternalKind :: error where
  "ErrNoInternalKind = ErrValidation ''event internal kind is mandatory''"
definition ErrNoAllowed :: error where "ErrNoAllowed = ErrNew ''event allowed is mandatory''"
definition ErrNoAllowedCancel :: error where
  "ErrNoAllowedCancel = ErrNew ''event allowed cancel is mandatory for cancelable events''"
definition ErrInvalidOwner :: error where
  "ErrInvalidOwner = ErrValidation ''event owner must not be set on internal events''"
definition ErrInvalidKind :: error where
  "ErrInvalidKind = ErrValidation ''event kind must not be set on internal events''"
definition ErrInvalidTargetType :: error where
  "ErrInvalidTargetType = ErrNew ''invalid event target type''"

definition mgo_IsDup :: "error \<Rightarrow> bool" where
  "mgo_IsDup e = (case e of ErrDup m \<Rightarrow> True | _ \<Rightarrow> False)"

text \<open>BSON values, as far as queries are built from them.\<close>

datatype bval =
    BStr string
  | BInt int
  | BBool bool
  | BTime int
  | BDoc "(string \<times> bval) list"
  | BArr "bval list"

type_synonym bsonM = "(string \<times> bval) list"

section \<open>The document store and the process state\<close>

text \<open>
  Collection \<open>events\<close> is a list of rows under their primary key, in insertion order; the
  key is unique, and a row is kept as the record that was written (the BSON encoding, which
  rounds times to milliseconds, is not modelled).  \<open>now\<close> is what \<open>time.Now().UTC()\<close>
  returns; the clock stands still during a call.  Every call that reaches the store
  (\<open>db.Conn\<close> and each collection operation) is appended to \<open>calls\<close> and takes the next
  entry of \<open>faults\<close>: \<open>Some m\<close> makes the call fail with the driver error \<open>m\<close> and no effect,
  \<open>None\<close> (or an exhausted list) lets it run.  The store changes through the operations of
  the call only: other processes are not modelled.  \<open>updaterSet\<close> is the set of targets
  held by the lock updater (what arrived on \<open>addCh\<close> and not yet on \<open>removeCh\<close>); a send on
  these channels is taken to be received, and the updater's periodic refresh of
  \<open>lockupdatetime\<close> runs concurrently and is not part of a call.  \<open>objIdCounter\<close> counts the
  ObjectIds generated so far.
\<close>

datatype dbcall =
    CallConn
  | CallInsert docId
  | CallFindId docId
  | CallRemoveId docId
  | CallUpdateId docId
  | CallCount bsonM
  | CallFindAll "bsonM option" string int int

record world =
  store :: "(docId \<times> eventData) list"
  now :: int
  faults :: "string option list"
  calls :: "dbcall list"
  updaterStarted :: bool
  updaterSet :: "Target set"
  objIdCounter :: nat

text \<open>
  What the package takes from outside the sources: \<open>fmt.Sprintf\<close>, \<open>bson.Marshal\<close>, the
  store's evaluation of a query on a row and of a sort key, the block registry
  (\<open>checkIsBlocked\<close>, defined in another file of the package), and \<open>bson.NewObjectId\<close> as
  a function of the number of ids generated before.
\<close>

record ext =
  sprintf :: "string \<Rightarrow> fmtarg list \<Rightarrow> string"
  bsonMarshal :: "gval option \<Rightarrow> error + byte list"
  queryMatches :: "bsonM option \<Rightarrow> eventData \<Rightarrow> bool"
  querySort :: "string \<Rightarrow> eventData list \<Rightarrow> eventData list"
  checkIsBlocked :: "Event \<Rightarrow> world \<Rightarrow> error option"
  newObjectId :: "nat \<Rightarrow> ObjectId"

definition takeFault :: "world \<Rightarrow> string option \<times> world" where
  "takeFault w =
     (case faults w of
        [] \<Rightarrow> (None, w)
      | f # fs \<Rightarrow> (f, w\<lparr>faults := fs\<rparr>))"

definition dbCall :: "dbcall \<Rightarrow> world \<Rightarrow> string option \<times> world" where
  "dbCall c w = (case takeFault w of (f, w1) \<Rightarrow> (f, w1\<lparr>calls := calls w1 @ [c]\<rparr>))"

definition db_Conn :: "world \<Rightarrow> error option \<times> world" where
  "db_Conn w =
     (case dbCall CallConn w of
        (Some m, w1) \<Rightarrow> (Some (ErrStore m), w1)
      | (None, w1) \<Rightarrow> (None, w1))"

definition coll_Insert :: "eventData \<Rightarrow> world \<Rightarrow> error option \<times> world" where
  "coll_Insert d w =
     (case dbCall (CallInsert (eventID_GetBSON (ID d))) w of
        (Some m, w1) \<Rightarrow> (Some (ErrStore m), w1)
      | (None, w1) \<Rightarrow>
          (case map_of (store w1) (eventID_GetBSON (ID d)) of
             Some r \<Rightarrow> (Some (ErrDup ''E11000 duplicate key error''), w1)
           | None \<Rightarrow> (None, w1\<lparr>store := store w1 @ [(eventID_GetBSON (ID d), d)]\<rparr>)))"

definition coll_FindId :: "docId \<Rightarrow> world \<Rightarrow> (error + eventData) \<times> world" where
  "coll_FindId k w =
     (case dbCall (CallFindId k) w of
        (Some m, w1) \<Rightarrow> (Inl (ErrStore m), w1)
      | (None, w1) \<Rightarrow>
          (case map_of (store w1) k of
             None \<Rightarrow> (Inl ErrNotFound, w1)
           | Some d \<Rightarrow> (Inr (d\<lparr>ID := eventID_SetBSON k\<rparr>), w1)))"

definition coll_RemoveId :: "docId \<Rightarrow> world \<Rightarrow> error option \<times> world" where
  "coll_RemoveId k w =
     (case dbCall (CallRemoveId k) w of
        (Some m, w1) \<Rightarrow> (Some (ErrStore m), w1)
      | (None, w1) \<Rightarrow>
          (case map_of (store w1) k of
             None \<Rightarrow> (Some ErrNotFound, w1)
           | Some d \<Rightarrow> (None, w1\<lparr>store := filter (\<lambda>r. fst r \<noteq> k) (store w1)\<rparr>)))"

definition coll_UpdateId :: "docId \<Rightarrow> eventData \<Rightarrow> world \<Rightarrow> error option \<times> world" where
  "coll_UpdateId k d w =
     (case dbCall (CallUpdateId k) w of
        (Some m, w1) \<Rightarrow> (Some (ErrStore m), w1)
      | (None, w1) \<Rightarrow>
          (case map_of (store w1) k of
             None \<Rightarrow> (Some ErrNotFound, w1)
           | Some d0 \<Rightarrow>
               (None, w1\<lparr>store := map (\<lambda>r. if fst r = k then (k, d) else r) (store w1)\<rparr>)))"

text \<open>The rows as a reader decodes them.\<close>

definition rows :: "world \<Rightarrow> eventData list" where
  "rows w = map (\<lambda>r. (snd r)\<lparr>ID := eventID_SetBSON (fst r)\<rparr>) (store w)"

definition coll_Count :: "ext \<Rightarrow> bsonM \<Rightarrow> world \<Rightarrow> (error + int) \<times> world" where
  "coll_Count X q w =
     (case dbCall (CallCount q) w of
        (Some m, w1) \<Rightarrow> (Inl (ErrStore m), w1)
      | (None, w1) \<Rightarrow> (Inr (int (length (filter (queryMatches X (Some q)) (rows w1)))), w1))"

text \<open>\<open>coll.Find(query).Sort(sort)\<close>, then \<open>Limit\<close> and \<open>Skip\<close> when positive, then \<open>All\<close>;
  the store skips before it limits.\<close>

definition coll_FindAll ::
  "ext \<Rightarrow> bsonM option \<Rightarrow> string \<Rightarrow> int \<Rightarrow> int \<Rightarrow> world \<Rightarrow> (error + eventData list) \<times> world" where
  "coll_FindAll X q srt limit skip w =
     (case dbCall (CallFindAll q srt limit skip) w of
        (Some m, w1) \<Rightarrow> (Inl (ErrStore m), w1)
      | (None, w1) \<Rightarrow>
          (let found = querySort X srt (filter (queryMatches X q) (rows w1));
               skipped = (if skip > 0 then drop (nat skip) found else found);
               limited = (if limit > 0 then take (nat limit) skipped else skipped)
           in (Inr limited, w1)))"

section \<open>Target types\<close>

fun GetTargetType :: "string \<Rightarrow> error + TargetType" where
  "GetTargetType t =
     (if t = ''app'' then Inr TargetTypeApp
      else if t = ''node'' then Inr TargetTypeNode
      else if t = ''container'' then Inr TargetTypeContainer
      else if t = ''pool'' then Inr TargetTypePool
      else if t = ''service'' then Inr TargetTypeService
      else if t = ''service-instance'' then Inr TargetTypeServiceInstance
      else if t = ''team'' then Inr TargetTypeTeam
      else if t = ''user'' then Inr TargetTypeUser
      else Inl ErrInvalidTargetType)"

section \<open>Throttling registry\<close>

type_synonym throttlingInfo = "string \<rightharpoonup> ThrottlingSpec"

definition SetThrottling :: "ThrottlingSpec \<Rightarrow> throttlingInfo \<Rightarrow> throttlingInfo" where
  "SetThrottling spec TI =
     (let key = (if ThrottlingSpec_KindName spec \<noteq> []
                 then ThrottlingSpec_TargetType spec @ ''_'' @ ThrottlingSpec_KindName spec
                 else ThrottlingSpec_TargetType spec)
      in TI(key \<mapsto> spec))"

definition getThrottling :: "throttlingInfo \<Rightarrow> Target \<Rightarrow> Kind \<Rightarrow> ThrottlingSpec option" where
  "getThrottling TI t k =
     (case TI (Target_Type t @ ''_'' @ Kind_Name k) of
        Some s \<Rightarrow> Some s
      | None \<Rightarrow>
          (case TI (Target_Type t) of
             Some s \<Rightarrow> Some s
           | None \<Rightarrow> None))"

section \<open>Filters and query compilation\<close>

record TargetFilter =
  TargetFilter_Type :: TargetType
  TargetFilter_Values :: "string list option"

record Filter =
  Filter_Target :: Target
  Filter_KindType :: kindType
  Filter_KindName :: string
  Filter_OwnerType :: ownerType
  Filter_OwnerName :: string
  Filter_Since :: int
  Filter_Until :: int
  Filter_Running :: "bool option"
  Filter_IncludeRemoved :: bool
  Filter_ErrorOnly :: bool
  Filter_Raw :: "bsonM option"
  Filter_AllowedTargets :: "TargetFilter list option"
  Filter_Permissions :: "Permission list option"
  Filter_Limit :: int
  Filter_Skip :: int
  Filter_Sort :: string

definition PruneUserValues :: "Filter \<Rightarrow> Filter" where
  "PruneUserValues f =
     (let f1 = f\<lparr>Filter_Raw := None\<rparr>;
          f2 = f1\<lparr>Filter_AllowedTargets := None\<rparr>;
          f3 = f2\<lparr>Filter_Permissions := None\<rparr>
      in if Filter_Limit f3 > filterMaxLimit \<or> Filter_Limit f3 \<le> 0
         then f3\<lparr>Filter_Limit := filterMaxLimit\<rparr>
         else f3)"

text \<open>\<open>permMap[name] = append(permMap[name], p.Context)\<close>.  A Go map is iterated in an
  unspecified order; the association list keeps the schemes in order of first occurrence.\<close>

definition permMap_append ::
  "(string \<times> PermissionContext list) list \<Rightarrow> Permission \<Rightarrow> (string \<times> PermissionContext list) list" where
  "permMap_append m p =
     AList.update (Permission_Scheme p)
       ((case map_of m (Permission_Scheme p) of None \<Rightarrow> [] | Some cs \<Rightarrow> cs) @ [Permission_Context p]) m"

text \<open>The inner loop over the contexts of one scheme: \<open>None\<close> is the nil slice left by
  \<open>break\<close> at a global context.\<close>

fun ctxsBson :: "PermissionContext list \<Rightarrow> bval list \<Rightarrow> bval list option" where
  "ctxsBson [] acc = Some acc"
| "ctxsBson (c # cs) acc =
     (if PermissionContext_CtxType c = CtxGlobal then None
      else ctxsBson cs
             (acc @ [BDoc [(''ctxtype'', BStr (PermissionContext_CtxType c)),
                           (''value'', BStr (PermissionContext_Value c))]]))"

text \<open>\<open>strings.Replace(perm, ".", `\.`, -1)\<close>\<close>

fun escapeDots :: "string \<Rightarrow> string" where
  "escapeDots [] = []"
| "escapeDots (c # cs) =
     (if c = CHR ''.'' then CHR 0x5C # CHR ''.'' # escapeDots cs else c # escapeDots cs)"

definition permClause :: "string \<times> PermissionContext list \<Rightarrow> bsonM" where
  "permClause pc =
     (let toAppend = [(''allowed.scheme'', BDoc [(''$regex'', BStr (''^'' @ escapeDots (fst pc)))])]
      in case ctxsBson (snd pc) [] of
           None \<Rightarrow> toAppend
         | Some b \<Rightarrow> AList.update ''allowed.contexts'' (BDoc [(''$in'', BArr b)]) toAppend)"

definition targetClause :: "TargetFilter \<Rightarrow> bsonM" where
  "targetClause at =
     (let f = [(''target.type'', BStr (TargetFilter_Type at))]
      in case TargetFilter_Values at of
           None \<Rightarrow> f
         | Some vs \<Rightarrow> AList.update ''target.value'' (BDoc [(''$in'', BArr (map BStr vs))]) f)"

text \<open>The second half of \<open>toQuery\<close>: the plain fields, the time window, and \<open>Raw\<close> last.\<close>

definition toQuery_fields :: "Filter \<Rightarrow> bsonM \<Rightarrow> bsonM" where
  "toQuery_fields f query =
     (let q1 = (if Target_Type (Filter_Target f) \<noteq> []
                then AList.update ''target.type'' (BStr (Target_Type (Filter_Target f))) query
                else query);
          q2 = (if Target_Value (Filter_Target f) \<noteq> []
                then AList.update ''target.value'' (BStr (Target_Value (Filter_Target f))) q1
                else q1);
          q3 = (if Filter_KindType f \<noteq> []
                then AList.update ''kind.type'' (BStr (Filter_KindType f)) q2 else q2);
          q4 = (if Filter_KindName f \<noteq> []
                then AList.update ''kind.name'' (BStr (Filter_KindName f)) q3 else q3);
          q5 = (if Filter_OwnerType f \<noteq> []
                then AList.update ''owner.type'' (BStr (Filter_OwnerType f)) q4 else q4);
          q6 = (if Filter_OwnerName f \<noteq> []
                then AList.update ''owner.name'' (BStr (Filter_OwnerName f)) q5 else q5);
          tp1 = (if Filter_Since f \<noteq> 0
                 then [BDoc [(''starttime'', BDoc [(''$gte'', BTime (Filter_Since f))])]]
                 else []);
          tp2 = (if Filter_Until f \<noteq> 0
                 then tp1 @ [BDoc [(''starttime'', BDoc [(''$lte'', BTime (Filter_Until f))])]]
                 else tp1);
          q7 = (if length tp2 \<noteq> 0 then AList.update ''$and'' (BArr tp2) q6 else q6);
          q8 = (case Filter_Running f of
                  Some r \<Rightarrow> AList.update ''running'' (BBool r) q7
                | None \<Rightarrow> q7);
          q9 = (if \<not> Filter_IncludeRemoved f
                then AList.update ''removedate'' (BDoc [(''$exists'', BBool False)]) q8
                else q8);
          q10 = (if Filter_ErrorOnly f
                 then AList.update ''error'' (BDoc [(''$ne'', BStr [])]) q9
                 else q9)
      in case Filter_Raw f of
           Some raw \<Rightarrow> foldl (\<lambda>q kv. AList.update (fst kv) (snd kv) q) q10 raw
         | None \<Rightarrow> q10)"

definition toQuery :: "Filter \<Rightarrow> error + bsonM" where
  "toQuery f =
     (let query = [];
          query1 = (case Filter_Permissions f of
                      Some ps \<Rightarrow>
                        AList.update ''$or''
                          (BArr (map (\<lambda>pc. BDoc (permClause pc)) (foldl permMap_append [] ps)))
                          query
                    | None \<Rightarrow> query)
      in case Filter_AllowedTargets f of
           Some ats \<Rightarrow>
             (let orBlock = map targetClause ats
              in if length orBlock = 0 then Inl errInvalidQuery
                 else Inr (toQuery_fields f (AList.update ''$or'' (BArr (map BDoc orBlock)) query1)))
         | None \<Rightarrow> Inr (toQuery_fields f query1))"

text \<open>\<open>List\<close>: a nil filter is \<open>None\<close>; the result is the pair Go returns, a nil slice
  being the empty list.\<close>

definition List_find ::
  "ext \<Rightarrow> bsonM option \<Rightarrow> string \<Rightarrow> int \<Rightarrow> int \<Rightarrow> world \<Rightarrow> (Event list \<times> error option) \<times> world" where
  "List_find X query srt limit skip w =
     (case db_Conn w of
        (Some err, w1) \<Rightarrow> (([], Some err), w1)
      | (None, w1) \<Rightarrow>
          (case coll_FindAll X query srt limit skip w1 of
             (Inl err, w2) \<Rightarrow> (([], Some err), w2)
           | (Inr allData, w2) \<Rightarrow>
               ((map (\<lambda>d. \<lparr>eventData = d, logBuffer = []\<rparr>) allData, None), w2)))"

definition List :: "ext \<Rightarrow> Filter option \<Rightarrow> world \<Rightarrow> (Event list \<times> error option) \<times> world" where
  "List X flt w =
     (case flt of
        None \<Rightarrow> List_find X None ''-starttime'' 0 0 w
      | Some f \<Rightarrow>
          (let limit = (if Filter_Limit f \<noteq> 0 then Filter_Limit f else filterMaxLimit);
               srt = (if Filter_Sort f \<noteq> [] then Filter_Sort f else ''-starttime'');
               skip = (if Filter_Skip f > 0 then Filter_Skip f else 0)
           in case toQuery f of
                Inl err \<Rightarrow>
                  (if err = errInvalidQuery then (([], None), w) else (([], Some err), w))
              | Inr query \<Rightarrow> List_find X (Some query) srt limit skip w))"

section \<open>Custom data\<close>

text \<open>The \<open>switch v.Kind()\<close> of \<open>makeBSONRaw\<close>: the BSON kind byte (3 a document, 4 an
  array), \<open>None\<close> in the default case.  A value that is still a pointer after one \<open>Elem\<close>
  falls in the default case.\<close>

definition bsonKind :: "gval \<Rightarrow> byte option" where
  "bsonKind v =
     (case v of
        GPtr p \<Rightarrow> None
      | GVal k c \<Rightarrow>
          (if k = KMap \<or> k = KStruct then Some 3
           else if k = KArray \<or> k = KSlice then Some 4
           else None))"

definition makeBSONRaw_marshal :: "ext \<Rightarrow> gval option \<Rightarrow> gval \<Rightarrow> error + Raw" where
  "makeBSONRaw_marshal X inp v =
     (case bsonKind v of
        None \<Rightarrow> Inl (ErrErrorf ''cannot use type %T as event custom data'' [FGo inp])
      | Some kind \<Rightarrow>
          (case bsonMarshal X inp of
             Inl err \<Rightarrow> Inl err
           | Inr data \<Rightarrow>
               if length data = 0
               then Inl (ErrErrorf ''invalid empty bson object for object %#v'' [FGo inp])
               else Inr \<lparr>Raw_Kind = kind, Raw_Data = data\<rparr>))"

definition makeBSONRaw :: "ext \<Rightarrow> gval option \<Rightarrow> error + Raw" where
  "makeBSONRaw X inp =
     (case inp of
        None \<Rightarrow> Inr emptyRaw
      | Some (GPtr None) \<Rightarrow> Inr emptyRaw
      | Some (GPtr (Some v)) \<Rightarrow> makeBSONRaw_marshal X inp v
      | Some (GVal k c) \<Rightarrow> makeBSONRaw_marshal X inp (GVal k c))"

section \<open>Completion\<close>

text \<open>The \<open>Error()\<close> method of each error.\<close>

definition errorMsg :: "ext \<Rightarrow> error \<Rightarrow> string" where
  "errorMsg X e =
     (case e of
        ErrValidation m \<Rightarrow> m
      | ErrNew m \<Rightarrow> m
      | ErrErrorf fm args \<Rightarrow> sprintf X fm args
      | ErrThrottled spec t \<Rightarrow>
          (let extra = (if ThrottlingSpec_KindName spec \<noteq> []
                        then sprintf X '' %s on'' [FStr (ThrottlingSpec_KindName spec)]
                        else [])
           in sprintf X ''event throttled, limit for%s %s %q is %d every %v''
                [FStr extra, FStr (Target_Type t), FStr (Target_Value t),
                 FInt (ThrottlingSpec_Max spec), FDur (ThrottlingSpec_Time spec)])
      | ErrEventLocked ev \<Rightarrow> sprintf X ''event locked: %v'' [FEvent ev]
      | ErrNotFound \<Rightarrow> ''not found''
      | ErrDup m \<Rightarrow> m
      | ErrStore m \<Rightarrow> m)"

definition setError :: "ext \<Rightarrow> error option \<Rightarrow> eventData \<Rightarrow> eventData" where
  "setError X evtErr d =
     (case evtErr of
        Some er \<Rightarrow> d\<lparr>Error := errorMsg X er\<rparr>
      | None \<Rightarrow>
          if cancelInfo_Canceled (CancelInfo d)
          then d\<lparr>Error := ''canceled by user request''\<rparr>
          else d)"

text \<open>
  \<open>done\<close> (here \<open>Event_done\<close>) returns its error, the event as the receiver is left, and the state.  The send
  on \<open>removeCh\<close> takes the target out of the updater's set.  The deferred \<open>RemoveId\<close> was
  given the locked key when \<open>defer\<close> ran, and runs after the insert of the archived row;
  its own error is dropped.
\<close>

definition Event_done ::
  "ext \<Rightarrow> Event \<Rightarrow> error option \<Rightarrow> gval option \<Rightarrow> bool \<Rightarrow> world \<Rightarrow> error option \<times> Event \<times> world" where
  "Event_done X e evtErr customData abort w =
     (let w0 = w\<lparr>updaterSet := updaterSet w - {Target (eventData e)}\<rparr>
      in case db_Conn w0 of
           (Some err, w1) \<Rightarrow> (Some err, e, w1)
         | (None, w1) \<Rightarrow>
             if abort
             then (case coll_RemoveId (eventID_GetBSON (ID (eventData e))) w1 of
                     (r, w2) \<Rightarrow> (r, e, w2))
             else
               (let d1 = setError X evtErr (eventData e);
                    d2 = d1\<lparr>EndTime := now w1\<rparr>
                in case makeBSONRaw X customData of
                     Inl err \<Rightarrow> (Some err, e\<lparr>eventData := d2\<lparr>EndCustomData := emptyRaw\<rparr>\<rparr>, w1)
                   | Inr raw \<Rightarrow>
                       (let d3 = d2\<lparr>EndCustomData := raw\<rparr>;
                            d4 = d3\<lparr>Running := False\<rparr>;
                            d5 = d4\<lparr>Log := logBuffer e\<rparr>
                        in case coll_FindId (eventID_GetBSON (ID d5)) w1 of
                             (found, w2) \<Rightarrow>
                               (let d6 = (case found of
                                            Inr dbEvt \<Rightarrow> d5\<lparr>OtherCustomData := OtherCustomData dbEvt\<rparr>
                                          | Inl err \<Rightarrow> d5)
                                in if length (eventID_ObjId (ID d6)) \<noteq> 0
                                   then (case coll_UpdateId (eventID_GetBSON (ID d6)) d6 w2 of
                                           (r, w3) \<Rightarrow> (r, e\<lparr>eventData := d6\<rparr>, w3))
                                   else
                                     (let lockedKey = eventID_GetBSON (ID d6);
                                          d7 = d6\<lparr>ID := \<lparr>eventID_Target = zeroTarget,
                                                         eventID_ObjId = UniqueID d6\<rparr>\<rparr>
                                      in case coll_Insert d7 w2 of
                                           (r, w3) \<Rightarrow>
                                             (r, e\<lparr>eventData := d7\<rparr>,
                                              snd (coll_RemoveId lockedKey w3)))))))"

definition Abort :: "ext \<Rightarrow> Event \<Rightarrow> world \<Rightarrow> error option \<times> Event \<times> world" where
  "Abort X e w = Event_done X e None None True w"

definition Done :: "ext \<Rightarrow> Event \<Rightarrow> error option \<Rightarrow> world \<Rightarrow> error option \<times> Event \<times> world" where
  "Done X e evtErr w = Event_done X e evtErr None False w"

definition DoneCustomData ::
  "ext \<Rightarrow> Event \<Rightarrow> error option \<Rightarrow> gval option \<Rightarrow> world \<Rightarrow> error option \<times> Event \<times> world" where
  "DoneCustomData X e evtErr customData w = Event_done X e evtErr customData False w"

section \<open>Lock expiry\<close>

definition checkIsExpired :: "ext \<Rightarrow> eventID \<Rightarrow> world \<Rightarrow> bool \<times> world" where
  "checkIsExpired X i w =
     (case coll_FindId (eventID_GetBSON i) w of
        (Inr d, w1) \<Rightarrow>
          (let nw = now w1;
               lastUpdate = LockUpdateTime d
           in if nw > lastUpdate + lockExpireTimeout
              then (True,
                    snd (snd (Done X \<lparr>eventData = d, logBuffer = []\<rparr>
                                (Some (ErrErrorf ''event expired, no update for %v''
                                         [FDur (now w1 - lastUpdate)])) w1)))
              else (False, w1))
      | (Inl err, w1) \<Rightarrow> (False, w1))"

section \<open>Event creation\<close>

text \<open>An \<open>auth.Token\<close> is used through three methods only.\<close>

record Token =
  Token_IsAppToken :: bool
  Token_GetAppName :: string
  Token_GetUserName :: string

record Opts =
  Opts_Target :: Target
  Opts_Kind :: "PermissionScheme option"
  Opts_InternalKind :: string
  Opts_Owner :: "Token option"
  Opts_RawOwner :: Owner
  Opts_CustomData :: "gval option"
  Opts_DisableLock :: bool
  Opts_Cancelable :: bool
  Opts_Allowed :: AllowedPermission
  Opts_AllowedCancel :: AllowedPermission

definition zeroCancelInfo :: cancelInfo where
  "zeroCancelInfo =
     \<lparr>cancelInfo_Owner = [], cancelInfo_StartTime = 0, cancelInfo_AckTime = 0,
      cancelInfo_Reason = [], cancelInfo_Asked = False, cancelInfo_Canceled = False\<rparr>"

definition updater_start :: "world \<Rightarrow> world" where
  "updater_start w = w\<lparr>updaterStarted := True\<rparr>"

definition bson_NewObjectId :: "ext \<Rightarrow> world \<Rightarrow> ObjectId \<times> world" where
  "bson_NewObjectId X w = (newObjectId X (objIdCounter w), w\<lparr>objIdCounter := Suc (objIdCounter w)\<rparr>)"

definition newEvt_kind :: "Opts \<Rightarrow> error + Kind" where
  "newEvt_kind opts =
     (case Opts_Kind opts of
        None \<Rightarrow>
          if Opts_InternalKind opts = [] then Inl ErrNoKind
          else Inr \<lparr>Kind_Type = KindTypeInternal, Kind_Name = Opts_InternalKind opts\<rparr>
      | Some scheme \<Rightarrow> Inr \<lparr>Kind_Type = KindTypePermission, Kind_Name = scheme\<rparr>)"

definition newEvt_owner :: "Opts \<Rightarrow> Owner" where
  "newEvt_owner opts =
     (case Opts_Owner opts of
        None \<Rightarrow>
          if Owner_Name (Opts_RawOwner opts) \<noteq> [] \<and> Owner_Type (Opts_RawOwner opts) \<noteq> []
          then Opts_RawOwner opts
          else \<lparr>Owner_Type = OwnerTypeInternal, Owner_Name = []\<rparr>
      | Some tok \<Rightarrow>
          if Token_IsAppToken tok
          then \<lparr>Owner_Type = OwnerTypeApp, Owner_Name = Token_GetAppName tok\<rparr>
          else \<lparr>Owner_Type = OwnerTypeUser, Owner_Name = Token_GetUserName tok\<rparr>)"

text \<open>The query of the throttling check.\<close>

definition throttleQuery :: "ThrottlingSpec \<Rightarrow> Target \<Rightarrow> int \<Rightarrow> bsonM" where
  "throttleQuery tSpec t nw =
     (let query = [(''target.type'', BStr (Target_Type t)),
                   (''target.value'', BStr (Target_Value t)),
                   (''starttime'', BDoc [(''$gt'', BTime (nw - ThrottlingSpec_Time tSpec))])]
      in if ThrottlingSpec_KindName tSpec \<noteq> []
         then AList.update ''kind.name'' (BStr (ThrottlingSpec_KindName tSpec)) query
         else query)"

definition newEvt_throttle ::
  "ext \<Rightarrow> throttlingInfo \<Rightarrow> Target \<Rightarrow> Kind \<Rightarrow> world \<Rightarrow> error option \<times> world" where
  "newEvt_throttle X TI t k w =
     (case getThrottling TI t k of
        None \<Rightarrow> (None, w)
      | Some tSpec \<Rightarrow>
          if ThrottlingSpec_Max tSpec > 0 \<and> ThrottlingSpec_Time tSpec > 0
          then (case coll_Count X (throttleQuery tSpec t (now w)) w of
                  (Inl err, w1) \<Rightarrow> (Some err, w1)
                | (Inr c, w1) \<Rightarrow>
                    if c \<ge> ThrottlingSpec_Max tSpec
                    then (Some (ErrThrottled tSpec t), w1)
                    else (None, w1))
          else (None, w))"

text \<open>The row a new event starts as.\<close>

definition newEvt_event :: "Opts \<Rightarrow> Kind \<Rightarrow> Owner \<Rightarrow> Raw \<Rightarrow> ObjectId \<Rightarrow> int \<Rightarrow> Event" where
  "newEvt_event opts k ow raw uniqID nw =
     \<lparr>eventData =
        \<lparr>ID = (if Opts_DisableLock opts
               then \<lparr>eventID_Target = zeroTarget, eventID_ObjId = uniqID\<rparr>
               else \<lparr>eventID_Target = Opts_Target opts, eventID_ObjId = []\<rparr>),
         UniqueID = uniqID,
         StartTime = nw,
         EndTime = 0,
         Target = Opts_Target opts,
         StartCustomData = raw,
         EndCustomData = emptyRaw,
         OtherCustomData = emptyRaw,
         Kind = k,
         Owner = ow,
         LockUpdateTime = nw,
         Error = [],
         Log = [],
         RemoveDate = 0,
         CancelInfo = zeroCancelInfo,
         Cancelable = Opts_Cancelable opts,
         Running = True,
         Allowed = Opts_Allowed opts,
         AllowedCancel = Opts_AllowedCancel opts\<rparr>,
      logBuffer = []\<rparr>"

text \<open>\<open>newEvt\<close> between the nil check and the insert loop: validation, connection,
  throttling, custom data and the construction of the row.\<close>

definition newEvt_setup ::
  "ext \<Rightarrow> throttlingInfo \<Rightarrow> Opts \<Rightarrow> world \<Rightarrow> (error + Event) \<times> world" where
  "newEvt_setup X TI opts w0 =
     (if \<not> Target_IsValid (Opts_Target opts) then (Inl ErrNoTarget, w0)
      else if AllowedPermission_Scheme (Opts_Allowed opts) = []
              \<and> length (AllowedPermission_Contexts (Opts_Allowed opts)) = 0
      then (Inl ErrNoAllowed, w0)
      else if Opts_Cancelable opts
              \<and> AllowedPermission_Scheme (Opts_AllowedCancel opts) = []
              \<and> length (AllowedPermission_Contexts (Opts_AllowedCancel opts)) = 0
      then (Inl ErrNoAllowedCancel, w0)
      else
        (case newEvt_kind opts of
           Inl err \<Rightarrow> (Inl err, w0)
         | Inr k \<Rightarrow>
             (let ow = newEvt_owner opts
              in case db_Conn w0 of
                   (Some err, w1) \<Rightarrow> (Inl err, w1)
                 | (None, w1) \<Rightarrow>
                     (case newEvt_throttle X TI (Opts_Target opts) k w1 of
                        (Some err, w2) \<Rightarrow> (Inl err, w2)
                      | (None, w2) \<Rightarrow>
                          (let nw = now w2
                           in case makeBSONRaw X (Opts_CustomData opts) of
                                Inl err \<Rightarrow> (Inl err, w2)
                              | Inr raw \<Rightarrow>
                                  (case bson_NewObjectId X w2 of
                                     (uniqID, w3) \<Rightarrow>
                                       (Inr (newEvt_event opts k ow raw uniqID nw), w3)))))))"

text \<open>The branch of the loop after a successful insert.\<close>

definition newEvt_inserted ::
  "ext \<Rightarrow> Opts \<Rightarrow> Event \<Rightarrow> world \<Rightarrow> (Event option \<times> error option) \<times> world" where
  "newEvt_inserted X opts evt w =
     (case checkIsBlocked X evt w of
        Some err \<Rightarrow> ((None, Some err), snd (snd (Done X evt (Some err) w)))
      | None \<Rightarrow>
          ((Some evt, None),
           (if \<not> Opts_DisableLock opts
            then w\<lparr>updaterSet := insert (Opts_Target opts) (updaterSet w)\<rparr>
            else w)))"

text \<open>Reading the row that holds the key: the new retry bound, the new \<open>err\<close>, the state.\<close>

definition newEvt_existing :: "Event \<Rightarrow> nat \<Rightarrow> world \<Rightarrow> nat \<times> error option \<times> world" where
  "newEvt_existing evt maxRetries w =
     (case coll_FindId (eventID_GetBSON (ID (eventData evt))) w of
        (Inl err, w1) \<Rightarrow>
          ((if err = ErrNotFound then maxRetries + 1 else maxRetries), Some err, w1)
      | (Inr existing, w1) \<Rightarrow>
          (maxRetries, Some (ErrEventLocked \<lparr>eventData = existing, logBuffer = []\<rparr>), w1))"

text \<open>The branch of the loop after a duplicate-key error \<open>ierr\<close>.\<close>

definition newEvt_dup ::
  "ext \<Rightarrow> Event \<Rightarrow> nat \<Rightarrow> nat \<Rightarrow> error \<Rightarrow> world \<Rightarrow> nat \<times> error option \<times> world" where
  "newEvt_dup X evt i maxRetries ierr w =
     (if i \<ge> maxRetries then newEvt_existing evt maxRetries w
      else (case checkIsExpired X (ID (eventData evt)) w of
              (False, w1) \<Rightarrow> newEvt_existing evt maxRetries w1
            | (True, w1) \<Rightarrow> (maxRetries, Some ierr, w1)))"

text \<open>
  The insert loop, from \<open>maxRetries := 1\<close>.  \<open>i\<close> and \<open>maxRetries\<close> only grow from 0 and 1.
  The bound grows when the row read after a duplicate-key error is not found, so the loop
  terminates because a key that has just been refused is held by a row.
\<close>

function newEvt_loop ::
  "ext \<Rightarrow> Opts \<Rightarrow> Event \<Rightarrow> nat \<Rightarrow> nat \<Rightarrow> error option \<Rightarrow> world
     \<Rightarrow> (Event option \<times> error option) \<times> world" where
  "newEvt_loop X opts evt i maxRetries err w =
     (if i < maxRetries + 1
      then (case coll_Insert (eventData evt) w of
              (None, w1) \<Rightarrow> newEvt_inserted X opts evt w1
            | (Some ierr, w1) \<Rightarrow>
                if mgo_IsDup ierr
                then (case newEvt_dup X evt i maxRetries ierr w1 of
                        (maxRetries', err', w2) \<Rightarrow>
                          newEvt_loop X opts evt (i + 1) maxRetries' err' w2)
                else ((None, Some ierr), w1))
      else ((None, err), w))"
  by pat_completeness auto

definition newEvt ::
  "ext \<Rightarrow> throttlingInfo \<Rightarrow> Opts option \<Rightarrow> world \<Rightarrow> (Event option \<times> error option) \<times> world" where
  "newEvt X TI optsP w =
     (let w0 = updater_start w
      in case optsP of
           None \<Rightarrow> ((None, Some ErrNoOpts), w0)
         | Some opts \<Rightarrow>
             (case newEvt_setup X TI opts w0 of
                (Inl err, w1) \<Rightarrow> ((None, Some err), w1)
              | (Inr evt, w1) \<Rightarrow> newEvt_loop X opts evt 0 1 None w1))"

definition New ::
  "ext \<Rightarrow> throttlingInfo \<Rightarrow> Opts option \<Rightarrow> world \<Rightarrow> (Event option \<times> error option) \<times> world" where
  "New X TI optsP w =
     (case optsP of
        None \<Rightarrow> ((None, Some ErrNoOpts), w)
      | Some opts \<Rightarrow>
          if Opts_Owner opts = None \<and> Owner_Name (Opts_RawOwner opts) = []
             \<and> Owner_Type (Opts_RawOwner opts) = []
          then ((None, Some ErrNoOwner), w)
          else if Opts_Kind opts = None then ((None, Some ErrNoKind), w)
          else newEvt X TI optsP w)"

definition NewInternal ::
  "ext \<Rightarrow> throttlingInfo \<Rightarrow> Opts option \<Rightarrow> world \<Rightarrow> (Event option \<times> error option) \<times> world" where
  "NewInternal X TI optsP w =
     (case optsP of
        None \<Rightarrow> ((None, Some ErrNoOpts), w)
      | Some opts \<Rightarrow>
          if Opts_Owner opts \<noteq> None then ((None, Some ErrInvalidOwner), w)
          else if Opts_Kind opts \<noteq> None then ((None, Some ErrInvalidKind), w)
          else if Opts_InternalKind opts = [] then ((None, Some ErrNoInternalKind), w)
          else newEvt X TI optsP w)"

section \<open>Concrete inputs\<close>

text \<open>Zero values, and a small environment in which the model runs on concrete inputs:
  formatting returns the format string, marshalling returns the five bytes of an empty
  document, a query matches a row when its clauses on target, kind name and start time
  hold (other clauses are ignored), nothing is blocked.\<close>

definition zeroFilter :: Filter where
  "zeroFilter =
     \<lparr>Filter_Target = zeroTarget, Filter_KindType = [], Filter_KindName = [],
      Filter_OwnerType = [], Filter_OwnerName = [], Filter_Since = 0, Filter_Until = 0,
      Filter_Running = None, Filter_IncludeRemoved = False, Filter_ErrorOnly = False,
      Filter_Raw = None, Filter_AllowedTargets = None, Filter_Permissions = None,
      Filter_Limit = 0, Filter_Skip = 0, Filter_Sort = []\<rparr>"

definition simClause :: "eventData \<Rightarrow> string \<times> bval \<Rightarrow> bool" where
  "simClause d kv =
     (if fst kv = ''target.type'' then snd kv = BStr (Target_Type (Target d))
      else if fst kv = ''target.value'' then snd kv = BStr (Target_Value (Target d))
      else if fst kv = ''kind.name'' then snd kv = BStr (Kind_Name (Kind d))
      else if fst kv = ''starttime''
           then (case snd kv of
                   BDoc [(opr, BTime t)] \<Rightarrow> opr = ''$gt'' \<and> StartTime d > t
                 | _ \<Rightarrow> False)
      else True)"

definition simMatches :: "bsonM option \<Rightarrow> eventData \<Rightarrow> bool" where
  "simMatches q d = (case q of None \<Rightarrow> True | Some cs \<Rightarrow> list_all (simClause d) cs)"

definition simExt :: ext where
  "simExt =
     \<lparr>sprintf = (\<lambda>fm args. fm),
      bsonMarshal = (\<lambda>v. Inr [5, 0, 0, 0, 0]),
      queryMatches = simMatches,
      querySort = (\<lambda>srt rs. rs),
      checkIsBlocked = (\<lambda>e w. None),
      newObjectId = (\<lambda>n. ''id'' @ replicate n (CHR ''i''))\<rparr>"

definition zeroWorld :: world where
  "zeroWorld =
     \<lparr>store = [], now = 0, faults = [], calls = [], updaterStarted = False,
      updaterSet = {}, objIdCounter = 0\<rparr>"

definition teamPermission :: Permission where
  "teamPermission =
     \<lparr>Permission_Scheme = ''app.deploy'',
      Permission_Context =
        \<lparr>PermissionContext_CtxType = ''team'', PermissionContext_Value = ''t1''\<rparr>\<rparr>"

definition appTargets :: TargetFilter where
  "appTargets = \<lparr>TargetFilter_Type = ''app'', TargetFilter_Values = None\<rparr>"

text \<open>An app target, a request to deploy it, throttling specs for apps, a running
  event that holds the lock of the target since \<open>lockTime\<close>, and the state in which that
  event is the only row.  Then the event a deploy request creates, an event whose
  cancellation was acknowledged, and what its completion leaves.\<close>

definition appTarget :: Target where
  "appTarget = \<lparr>Target_Type = ''app'', Target_Value = ''myapp''\<rparr>"

definition deployOpts :: Opts where
  "deployOpts =
     \<lparr>Opts_Target = appTarget,
      Opts_Kind = Some ''app.deploy'',
      Opts_InternalKind = [],
      Opts_Owner = Some \<lparr>Token_IsAppToken = False, Token_GetAppName = [],
                         Token_GetUserName = ''alice''\<rparr>,
      Opts_RawOwner = \<lparr>Owner_Type = [], Owner_Name = []\<rparr>,
      Opts_CustomData = None,
      Opts_DisableLock = False,
      Opts_Cancelable = False,
      Opts_Allowed =
        \<lparr>AllowedPermission_Scheme = ''app.deploy'',
         AllowedPermission_Contexts =
           [\<lparr>PermissionContext_CtxType = ''team'', PermissionContext_Value = ''t1''\<rparr>]\<rparr>,
      Opts_AllowedCancel =
        \<lparr>AllowedPermission_Scheme = [], AllowedPermission_Contexts = []\<rparr>\<rparr>"

definition deployKind :: Kind where
  "deployKind = \<lparr>Kind_Type = ''permission'', Kind_Name = ''app.deploy''\<rparr>"

definition appSpec :: "int \<Rightarrow> ThrottlingSpec" where
  "appSpec mx =
     \<lparr>ThrottlingSpec_TargetType = ''app'', ThrottlingSpec_KindName = [],
      ThrottlingSpec_Max = mx, ThrottlingSpec_Time = 3600000000000\<rparr>"

definition deploySpec :: ThrottlingSpec where
  "deploySpec =
     \<lparr>ThrottlingSpec_TargetType = ''app'', ThrottlingSpec_KindName = ''app.deploy'',
      ThrottlingSpec_Max = 2, ThrottlingSpec_Time = 3600000000000\<rparr>"

definition heldRow :: "int \<Rightarrow> eventData" where
  "heldRow lockTime =
     \<lparr>ID = \<lparr>eventID_Target = appTarget, eventID_ObjId = []\<rparr>,
      UniqueID = ''held'',
      StartTime = lockTime,
      EndTime = 0,
      Target = appTarget,
      StartCustomData = emptyRaw,
      EndCustomData = emptyRaw,
      OtherCustomData = emptyRaw,
      Kind = deployKind,
      Owner = \<lparr>Owner_Type = ''user'', Owner_Name = ''bob''\<rparr>,
      LockUpdateTime = lockTime,
      Error = [],
      Log = [],
      RemoveDate = 0,
      CancelInfo = zeroCancelInfo,
      Cancelable = False,
      Running = True,
      Allowed = Opts_Allowed deployOpts,
      AllowedCancel = Opts_AllowedCancel deployOpts\<rparr>"

definition lockedWorld :: "int \<Rightarrow> int \<Rightarrow> world" where
  "lockedWorld nw lockTime =
     \<lparr>store = [(IdTarget appTarget, heldRow lockTime)], now = nw, faults = [], calls = [],
      updaterStarted = True, updaterSet = {appTarget}, objIdCounter = 1\<rparr>"

definition deployEvent :: "int \<Rightarrow> Event" where
  "deployEvent nw =
     newEvt_event deployOpts deployKind \<lparr>Owner_Type = ''user'', Owner_Name = ''alice''\<rparr>
       emptyRaw ''idi'' nw"




text \<open>The row as \<open>done\<close> leaves it before it reads the stored row again: error set,
  end time, no end data, not running, the log.\<close>

definition doneRow :: "ext \<Rightarrow> Event \<Rightarrow> error option \<Rightarrow> int \<Rightarrow> eventData" where
  "doneRow X e evtErr nw =
     (setError X evtErr (eventData e))\<lparr>EndTime := nw, EndCustomData := emptyRaw,
        Running := False, Log := logBuffer e\<rparr>"

section \<open>Termination of the insert loop\<close>

lemma dbCall_store: "store (snd (dbCall c w)) = store w"
  by (simp add: dbCall_def takeFault_def split: list.splits)

lemma coll_Insert_dup_present:
  assumes "coll_Insert d w = (Some ierr, w1)" and "mgo_IsDup ierr"
  shows "map_of (store w1) (eventID_GetBSON (ID d)) \<noteq> None"
  using assms
  by (auto simp: coll_Insert_def mgo_IsDup_def split: prod.splits option.splits)

lemma coll_FindId_store: "store (snd (coll_FindId k w)) = store w"
  using dbCall_store [of "CallFindId k" w]
  by (auto simp: coll_FindId_def split: prod.splits option.splits)

lemma checkIsExpired_False_store:
  assumes "checkIsExpired X i w = (False, w1)"
  shows "store w1 = store w"
  using assms coll_FindId_store [of "eventID_GetBSON i" w]
  by (auto simp: checkIsExpired_def Let_def split: prod.splits sum.splits if_splits)

lemma coll_FindId_present:
  assumes "map_of (store w) k \<noteq> None"
  shows "fst (coll_FindId k w) \<noteq> Inl ErrNotFound"
  using assms dbCall_store [of "CallFindId k" w]
  by (auto simp: coll_FindId_def split: prod.splits option.splits)

lemma newEvt_existing_bound:
  assumes "map_of (store w) (eventID_GetBSON (ID (eventData evt))) \<noteq> None"
  shows "fst (newEvt_existing evt maxRetries w) = maxRetries"
  using coll_FindId_present [OF assms]
  by (auto simp: newEvt_existing_def split: prod.splits sum.splits)

lemma newEvt_dup_bound:
  assumes "map_of (store w) (eventID_GetBSON (ID (eventData evt))) \<noteq> None"
  shows "fst (newEvt_dup X evt i maxRetries ierr w) = maxRetries"
proof (cases "i \<ge> maxRetries")
  case True
  then show ?thesis by (simp add: newEvt_dup_def newEvt_existing_bound [OF assms])
next
  case False
  obtain b w1 where c: "checkIsExpired X (ID (eventData evt)) w = (b, w1)"
    by (cases "checkIsExpired X (ID (eventData evt)) w")
  show ?thesis
  proof (cases b)
    case True
    with c False show ?thesis by (simp add: newEvt_dup_def)
  next
    case b: False
    with c have "store w1 = store w" by (simp add: checkIsExpired_False_store)
    with assms have "map_of (store w1) (eventID_GetBSON (ID (eventData evt))) \<noteq> None" by simp
    from newEvt_existing_bound [OF this] c b False show ?thesis by (simp add: newEvt_dup_def)
  qed
qed

termination newEvt_loop
proof (relation "measure (\<lambda>(X, opts, evt, i, maxRetries, err, w). maxRetries + 1 - i)")
  show "wf (measure (\<lambda>(X, opts, evt, i, maxRetries, err, w). maxRetries + 1 - i))"
    by simp
next
  fix X :: ext and opts :: Opts and evt :: Event and i maxRetries :: nat
    and err :: "error option" and w :: world
    and x :: "error option" and y :: world and x2 :: error
    and xa :: nat and ya :: "error option \<times> world" and xb :: "error option" and yb :: world
  assume lt: "i < maxRetries + 1"
    and ins: "(x, y) = coll_Insert (eventData evt) w" "x = Some x2"
    and dup: "mgo_IsDup x2"
    and d: "(xa, ya) = newEvt_dup X evt i maxRetries x2 y"
  from ins have "coll_Insert (eventData evt) w = (Some x2, y)" by simp
  from coll_Insert_dup_present [OF this dup]
  have "fst (newEvt_dup X evt i maxRetries x2 y) = maxRetries"
    by (rule newEvt_dup_bound)
  with d have "xa = maxRetries" by (metis fst_conv)
  with lt show "((X, opts, evt, i + 1, xa, xb, yb), (X, opts, evt, i, maxRetries, err, w))
        \<in> measure (\<lambda>(X, opts, evt, i, maxRetries, err, w). maxRetries + 1 - i)"
    by simp
qed

section \<open>The store without faults\<close>

declare newEvt_loop.simps [simp del]

lemma dbCall_nofault:
  "faults w = [] \<Longrightarrow> dbCall c w = (None, w\<lparr>calls := calls w @ [c]\<rparr>)"
  by (simp add: dbCall_def takeFault_def)

lemma db_Conn_nofault:
  "faults w = [] \<Longrightarrow> db_Conn w = (None, w\<lparr>calls := calls w @ [CallConn]\<rparr>)"
  by (simp add: db_Conn_def dbCall_nofault)

lemma coll_Count_nofault:
  "faults w = [] \<Longrightarrow>
   coll_Count X q w =
     (Inr (int (length (filter (queryMatches X (Some q)) (rows w)))),
      w\<lparr>calls := calls w @ [CallCount q]\<rparr>)"
  by (simp add: coll_Count_def dbCall_nofault rows_def)

lemma coll_Insert_nofault_dup:
  "faults w = [] \<Longrightarrow> map_of (store w) (eventID_GetBSON (ID d)) = Some r \<Longrightarrow>
   coll_Insert d w =
     (Some (ErrDup ''E11000 duplicate key error''),
      w\<lparr>calls := calls w @ [CallInsert (eventID_GetBSON (ID d))]\<rparr>)"
  by (simp add: coll_Insert_def dbCall_nofault)

lemma coll_Insert_nofault_new:
  "faults w = [] \<Longrightarrow> map_of (store w) (eventID_GetBSON (ID d)) = None \<Longrightarrow>
   coll_Insert d w =
     (None, w\<lparr>calls := calls w @ [CallInsert (eventID_GetBSON (ID d))],
              store := store w @ [(eventID_GetBSON (ID d), d)]\<rparr>)"
  by (simp add: coll_Insert_def dbCall_nofault)

lemma coll_FindId_nofault_found:
  "faults w = [] \<Longrightarrow> map_of (store w) k = Some d \<Longrightarrow>
   coll_FindId k w =
     (Inr (d\<lparr>ID := eventID_SetBSON k\<rparr>), w\<lparr>calls := calls w @ [CallFindId k]\<rparr>)"
  by (simp add: coll_FindId_def dbCall_nofault)

lemma coll_FindId_nofault_missing:
  "faults w = [] \<Longrightarrow> map_of (store w) k = None \<Longrightarrow>
   coll_FindId k w = (Inl ErrNotFound, w\<lparr>calls := calls w @ [CallFindId k]\<rparr>)"
  by (simp add: coll_FindId_def dbCall_nofault)


lemma coll_RemoveId_nofault_found:
  "faults w = [] \<Longrightarrow> map_of (store w) k = Some d \<Longrightarrow>
   coll_RemoveId k w =
     (None, w\<lparr>calls := calls w @ [CallRemoveId k],
              store := filter (\<lambda>r. fst r \<noteq> k) (store w)\<rparr>)"
  by (simp add: coll_RemoveId_def dbCall_nofault)






lemma map_of_filter_same:
  "map_of (filter (\<lambda>r. fst r \<noteq> k) st) k = None"
  by (induction st) auto

(* C6 *)

lemmas store_defs =
  dbCall_def takeFault_def db_Conn_def coll_Insert_def coll_FindId_def coll_RemoveId_def
  coll_UpdateId_def

section \<open>Target types\<close>

lemma GetTargetType_accepts:
  "(\<exists>r. GetTargetType t = Inr r) \<longleftrightarrow>
     t \<in> {''app'', ''node'', ''container'', ''pool'', ''service'', ''service-instance'',
           ''team'', ''user''}"
  by simp

text \<open>
  C4.  \<open>GetTargetType\<close> should return the target type for each of the fifteen declared tags.
  The switch has cases for the first eight only: the declared tag \<open>iaas\<close>, and likewise
  \<open>role\<close>, \<open>platform\<close>, \<open>plan\<close>, \<open>node-container\<close>, \<open>install-host\<close> and \<open>event-block\<close>, is
  answered with \<open>ErrInvalidTargetType\<close>.
\<close>

theorem GetTargetType_misses_declared:
  "TargetTypeIaas \<in> set declaredTargetTypes
   \<and> GetTargetType TargetTypeIaas = Inl ErrInvalidTargetType
   \<and> map GetTargetType [''iaas'', ''role'', ''platform'', ''plan'', ''node-container'',
        ''install-host'', ''event-block''] = replicate 7 (Inl ErrInvalidTargetType)"
  by (simp add: declaredTargetTypes_def TargetTypeIaas_def numeral_eq_Suc)

section \<open>Sanitising a user's filter\<close>

text \<open>
  C7.  After \<open>PruneUserValues\<close> the fields \<open>Raw\<close>, \<open>AllowedTargets\<close> and \<open>Permissions\<close> are nil
  and the limit lies between 1 and 100: a limit of zero or less becomes \<open>filterMaxLimit\<close>,
  which is 100, a limit above 100 becomes 100, and a limit already in range is kept.
\<close>

theorem PruneUserValues_clears_and_clamps:
  "Filter_Raw (PruneUserValues f) = None
   \<and> Filter_AllowedTargets (PruneUserValues f) = None
   \<and> Filter_Permissions (PruneUserValues f) = None
   \<and> 1 \<le> Filter_Limit (PruneUserValues f)
   \<and> Filter_Limit (PruneUserValues f) \<le> 100
   \<and> (Filter_Limit f \<le> 0 \<longrightarrow> Filter_Limit (PruneUserValues f) = filterMaxLimit)
   \<and> (Filter_Limit f > 100 \<longrightarrow> Filter_Limit (PruneUserValues f) = 100)
   \<and> (1 \<le> Filter_Limit f \<and> Filter_Limit f \<le> 100
        \<longrightarrow> Filter_Limit (PruneUserValues f) = Filter_Limit f)
   \<and> filterMaxLimit = 100"
  by (simp add: PruneUserValues_def filterMaxLimit_def Let_def)

theorem PruneUserValues_clears_and_clamps_witness:
  "Filter_Limit (zeroFilter\<lparr>Filter_Limit := 0\<rparr>) \<le> 0
   \<and> Filter_Limit (PruneUserValues (zeroFilter\<lparr>Filter_Limit := 0\<rparr>)) = 100
   \<and> Filter_Limit (zeroFilter\<lparr>Filter_Limit := 250\<rparr>) > 100
   \<and> Filter_Limit (PruneUserValues (zeroFilter\<lparr>Filter_Limit := 250\<rparr>)) = 100
   \<and> 1 \<le> Filter_Limit (zeroFilter\<lparr>Filter_Limit := 7\<rparr>)
   \<and> Filter_Limit (zeroFilter\<lparr>Filter_Limit := 7\<rparr>) \<le> 100
   \<and> Filter_Limit (PruneUserValues (zeroFilter\<lparr>Filter_Limit := 7\<rparr>)) = 7"
  using PruneUserValues_clears_and_clamps [of "zeroFilter\<lparr>Filter_Limit := 0\<rparr>"]
    PruneUserValues_clears_and_clamps [of "zeroFilter\<lparr>Filter_Limit := 250\<rparr>"]
    PruneUserValues_clears_and_clamps [of "zeroFilter\<lparr>Filter_Limit := 7\<rparr>"]
  by (simp add: zeroFilter_def)

section \<open>Listing with a degenerate filter\<close>

lemma toQuery_empty_targets:
  "Filter_AllowedTargets f = Some [] \<Longrightarrow> toQuery f = Inl errInvalidQuery"
  by (simp add: toQuery_def Let_def)

text \<open>
  C5.  For a filter whose \<open>AllowedTargets\<close> is supplied and empty, \<open>List\<close> returns an empty
  result and a nil error; it does so before it reaches the store, which is left as it was.
\<close>

theorem List_empty_allowed_targets:
  "Filter_AllowedTargets f = Some [] \<Longrightarrow> List X (Some f) w = (([], None), w)"
  by (simp add: List_def Let_def toQuery_empty_targets)

theorem List_empty_allowed_targets_witness:
  "Filter_AllowedTargets (zeroFilter\<lparr>Filter_AllowedTargets := Some []\<rparr>) = Some []
   \<and> List simExt (Some (zeroFilter\<lparr>Filter_AllowedTargets := Some []\<rparr>)) zeroWorld
       = (([], None), zeroWorld)"
  using List_empty_allowed_targets
    [of "zeroFilter\<lparr>Filter_AllowedTargets := Some []\<rparr>" simExt zeroWorld]
  by simp

section \<open>Permissions and allowed targets in one query\<close>

lemma toQuery_fields_Permissions:
  "toQuery_fields (f\<lparr>Filter_Permissions := p\<rparr>) q = toQuery_fields f q"
  by (simp add: toQuery_fields_def split del: if_split cong: if_cong)

text \<open>Whenever \<open>AllowedTargets\<close> is supplied, the compiled query does not depend on
  \<open>Permissions\<close>: the second assignment to key \<open>$or\<close> replaces the first.\<close>

lemma toQuery_permissions_overwritten:
  assumes "Filter_AllowedTargets f \<noteq> None"
  shows "toQuery (f\<lparr>Filter_Permissions := ps\<rparr>) = toQuery (f\<lparr>Filter_Permissions := None\<rparr>)"
proof -
  from assms obtain ats where "Filter_AllowedTargets f = Some ats" by auto
  then show ?thesis
    by (cases ps) (simp_all add: toQuery_def Let_def toQuery_fields_Permissions)
qed

text \<open>
  C2.  A filter with both \<open>Permissions\<close> and \<open>AllowedTargets\<close> should compile to a query that
  applies both restrictions.  With the permission \<open>app.deploy\<close> on team \<open>t1\<close> alone the query
  carries the permission clause under \<open>$or\<close>; with the allowed target type \<open>app\<close> added, the
  query carries the target clause only, and is the query of the same filter without any
  permission.
\<close>

theorem toQuery_drops_permissions:
  "toQuery (zeroFilter\<lparr>Filter_Permissions := Some [teamPermission]\<rparr>)
     = Inr [(''$or'',
             BArr [BDoc [(''allowed.scheme'',
                          BDoc [(''$regex'',
                                 BStr (''^app'' @ [CHR 0x5C] @ ''.deploy''))]),
                         (''allowed.contexts'',
                          BDoc [(''$in'',
                                 BArr [BDoc [(''ctxtype'', BStr ''team''),
                                             (''value'', BStr ''t1'')]])])]]),
            (''removedate'', BDoc [(''$exists'', BBool False)])]
   \<and> toQuery (zeroFilter\<lparr>Filter_Permissions := Some [teamPermission],
                          Filter_AllowedTargets := Some [appTargets]\<rparr>)
     = Inr [(''$or'', BArr [BDoc [(''target.type'', BStr ''app'')]]),
            (''removedate'', BDoc [(''$exists'', BBool False)])]
   \<and> toQuery (zeroFilter\<lparr>Filter_Permissions := Some [teamPermission],
                          Filter_AllowedTargets := Some [appTargets]\<rparr>)
     = toQuery (zeroFilter\<lparr>Filter_AllowedTargets := Some [appTargets]\<rparr>)"
  by (simp add: toQuery_def toQuery_fields_def zeroFilter_def zeroTarget_def teamPermission_def
      appTargets_def permMap_append_def permClause_def targetClause_def CtxGlobal_def Let_def)

section \<open>The marshal gate for custom data\<close>

text \<open>
  C3, as the claim states it: a scalar input marshals to empty fields rather than failing.
  The integer 42 is refused with the error of the default case.
\<close>

theorem makeBSONRaw_scalar_counterexample:
  "makeBSONRaw simExt (Some (GVal KInt ''42''))
     = Inl (ErrErrorf ''cannot use type %T as event custom data'' [FGo (Some (GVal KInt ''42''))])
   \<and> makeBSONRaw simExt (Some (GVal KInt ''42'')) \<noteq> Inr emptyRaw"
  by (simp add: makeBSONRaw_def makeBSONRaw_marshal_def bsonKind_def)

text \<open>
  C3, amended.  The nil interface and a nil pointer marshal to the empty raw value.  A map
  or struct, directly or behind one pointer, marshals to a BSON document (kind 3), an array
  or slice to a BSON array (kind 4), when \<open>bson.Marshal\<close> succeeds with at least one byte.
  Every other shape, scalars and pointers to pointers included, fails with the error
  \<open>cannot use type %T as event custom data\<close>, made by \<open>errors.Errorf\<close>.
\<close>

theorem makeBSONRaw_gate:
  "makeBSONRaw X None = Inr emptyRaw
   \<and> makeBSONRaw X (Some (GPtr None)) = Inr emptyRaw
   \<and> (\<forall>v k c data.
        (v = GVal k c \<or> v = GPtr (Some (GVal k c))) \<and> bsonMarshal X (Some v) = Inr data \<and> data \<noteq> []
        \<longrightarrow> ((k = KMap \<or> k = KStruct)
                \<longrightarrow> makeBSONRaw X (Some v) = Inr \<lparr>Raw_Kind = 3, Raw_Data = data\<rparr>)
            \<and> ((k = KArray \<or> k = KSlice)
                \<longrightarrow> makeBSONRaw X (Some v) = Inr \<lparr>Raw_Kind = 4, Raw_Data = data\<rparr>))
   \<and> (\<forall>v k c.
        (v = GVal k c \<or> v = GPtr (Some (GVal k c))) \<and> k \<notin> {KMap, KStruct, KArray, KSlice}
        \<longrightarrow> makeBSONRaw X (Some v)
              = Inl (ErrErrorf ''cannot use type %T as event custom data'' [FGo (Some v)]))
   \<and> (\<forall>p. makeBSONRaw X (Some (GPtr (Some (GPtr p))))
              = Inl (ErrErrorf ''cannot use type %T as event custom data''
                       [FGo (Some (GPtr (Some (GPtr p))))]))"
  by (auto simp: makeBSONRaw_def makeBSONRaw_marshal_def bsonKind_def)

theorem makeBSONRaw_gate_witness:
  "makeBSONRaw simExt (Some (GVal KMap ''{a: 1}''))
     = Inr \<lparr>Raw_Kind = 3, Raw_Data = [5, 0, 0, 0, 0]\<rparr>
   \<and> makeBSONRaw simExt (Some (GPtr (Some (GVal KSlice ''[1 2]''))))
     = Inr \<lparr>Raw_Kind = 4, Raw_Data = [5, 0, 0, 0, 0]\<rparr>
   \<and> makeBSONRaw simExt (Some (GVal KString ''text''))
     = Inl (ErrErrorf ''cannot use type %T as event custom data''
              [FGo (Some (GVal KString ''text''))])"
  using makeBSONRaw_gate [of simExt]
  by (simp add: simExt_def)

section \<open>Throttling\<close>

lemma newEvt_setup_throttle_cong:
  assumes "newEvt_kind opts = Inr k"
    and "\<And>w'. newEvt_throttle X TI (Opts_Target opts) k w' = newEvt_throttle X TI' (Opts_Target opts) k w'"
  shows "newEvt_setup X TI opts w = newEvt_setup X TI' opts w"
  using assms by (simp add: newEvt_setup_def Let_def split: prod.splits option.splits)

lemma newEvt_throttle_cong:
  assumes "newEvt_kind opts = Inr k"
    and "\<And>w'. newEvt_throttle X TI (Opts_Target opts) k w' = newEvt_throttle X TI' (Opts_Target opts) k w'"
  shows "newEvt X TI (Some opts) w = newEvt X TI' (Some opts) w"
  by (simp add: newEvt_def Let_def newEvt_setup_throttle_cong [OF assms])

lemma newEvt_throttled:
  assumes kind: "newEvt_kind opts = Inr k"
    and valid: "Target_IsValid (Opts_Target opts)"
      "AllowedPermission_Scheme (Opts_Allowed opts) \<noteq> [] \<or> AllowedPermission_Contexts (Opts_Allowed opts) \<noteq> []"
      "Opts_Cancelable opts \<longrightarrow> AllowedPermission_Scheme (Opts_AllowedCancel opts) \<noteq> [] \<or> AllowedPermission_Contexts (Opts_AllowedCancel opts) \<noteq> []"
    and nofault: "faults w = []"
    and spec: "getThrottling TI (Opts_Target opts) k = Some s"
    and active: "ThrottlingSpec_Max s > 0" "ThrottlingSpec_Time s > 0"
    and full: "int (length (filter (queryMatches X (Some (throttleQuery s (Opts_Target opts) (now w)))) (rows w))) \<ge> ThrottlingSpec_Max s"
  shows "newEvt X TI (Some opts) w =
          ((None, Some (ErrThrottled s (Opts_Target opts))),
           w\<lparr>updaterStarted := True,
             calls := calls w @ [CallConn, CallCount (throttleQuery s (Opts_Target opts) (now w))]\<rparr>)"
  using assms
  by (auto simp add: newEvt_def newEvt_setup_def updater_start_def db_Conn_nofault
      newEvt_throttle_def coll_Count_nofault rows_def)

lemma throttleQuery_shape:
  "throttleQuery s t nw =
     [(''target.type'', BStr (Target_Type t)),
      (''target.value'', BStr (Target_Value t)),
      (''starttime'', BDoc [(''$gt'', BTime (nw - ThrottlingSpec_Time s))])]
     @ (if ThrottlingSpec_KindName s \<noteq> []
        then [(''kind.name'', BStr (ThrottlingSpec_KindName s))] else [])"
  by (simp add: throttleQuery_def)

lemma newEvt_throttle_inactive:
  assumes "getThrottling TI t k = Some s"
    and "ThrottlingSpec_Max s \<le> 0 \<or> ThrottlingSpec_Time s \<le> 0"
  shows "newEvt_throttle X TI t k w = (None, w)"
  using assms by (auto simp: newEvt_throttle_def)

lemma newEvt_throttle_empty: "newEvt_throttle X Map.empty t k w = (None, w)"
  by (simp add: newEvt_throttle_def getThrottling_def)

lemma newEvt_throttle_below:
  assumes "getThrottling TI t k = Some s"
    and "ThrottlingSpec_Max s > 0" "ThrottlingSpec_Time s > 0"
    and "faults w = []"
    and "int (length (filter (queryMatches X (Some (throttleQuery s t (now w)))) (rows w))) < ThrottlingSpec_Max s"
  shows "newEvt_throttle X TI t k w = (None, w\<lparr>calls := calls w @ [CallCount (throttleQuery s t (now w))]\<rparr>)"
  using assms by (simp add: newEvt_throttle_def coll_Count_nofault)

text \<open>
  C6.  For a creation on target \<open>T\<close> with kind \<open>K\<close>: the lookup takes the spec under the key
  of target type and kind name when there is one, and otherwise what is under the target
  type alone.  With a spec whose \<open>Max\<close> or \<open>Time\<close> is not positive, creation runs as with an
  empty registry.  With an active spec, valid options and a store without faults, the store
  is asked for the count of the rows matching the throttle query, and a count of at least
  \<open>Max\<close> makes creation fail with \<open>ErrThrottled\<close> carrying that spec and the target; a lower
  count lets the check pass.  The query holds the target type, the target value and
  \<open>starttime > now - Time\<close>, and the kind name when the spec has one.
\<close>

theorem throttling_on_creation:
  assumes kind: "newEvt_kind opts = Inr k"
  shows
    "(\<forall>s. TI (Target_Type (Opts_Target opts) @ ''_'' @ Kind_Name k) = Some s
          \<longrightarrow> getThrottling TI (Opts_Target opts) k = Some s)
     \<and> (TI (Target_Type (Opts_Target opts) @ ''_'' @ Kind_Name k) = None
          \<longrightarrow> getThrottling TI (Opts_Target opts) k = TI (Target_Type (Opts_Target opts)))
     \<and> (\<forall>s. getThrottling TI (Opts_Target opts) k = Some s
              \<and> (ThrottlingSpec_Max s \<le> 0 \<or> ThrottlingSpec_Time s \<le> 0)
          \<longrightarrow> newEvt X TI (Some opts) w = newEvt X Map.empty (Some opts) w)
     \<and> (\<forall>s. getThrottling TI (Opts_Target opts) k = Some s
              \<and> ThrottlingSpec_Max s > 0 \<and> ThrottlingSpec_Time s > 0
              \<and> faults w = []
              \<and> Target_IsValid (Opts_Target opts)
              \<and> (AllowedPermission_Scheme (Opts_Allowed opts) \<noteq> []
                  \<or> AllowedPermission_Contexts (Opts_Allowed opts) \<noteq> [])
              \<and> (Opts_Cancelable opts
                  \<longrightarrow> AllowedPermission_Scheme (Opts_AllowedCancel opts) \<noteq> []
                      \<or> AllowedPermission_Contexts (Opts_AllowedCancel opts) \<noteq> [])
              \<and> ThrottlingSpec_Max s
                  \<le> int (length (filter
                        (queryMatches X (Some (throttleQuery s (Opts_Target opts) (now w))))
                        (rows w)))
          \<longrightarrow> newEvt X TI (Some opts) w =
                ((None, Some (ErrThrottled s (Opts_Target opts))),
                 w\<lparr>updaterStarted := True,
                   calls := calls w
                     @ [CallConn, CallCount (throttleQuery s (Opts_Target opts) (now w))]\<rparr>))
     \<and> (\<forall>s. getThrottling TI (Opts_Target opts) k = Some s
              \<and> ThrottlingSpec_Max s > 0 \<and> ThrottlingSpec_Time s > 0
              \<and> faults w = []
              \<and> int (length (filter
                        (queryMatches X (Some (throttleQuery s (Opts_Target opts) (now w))))
                        (rows w))) < ThrottlingSpec_Max s
          \<longrightarrow> newEvt_throttle X TI (Opts_Target opts) k w =
                (None, w\<lparr>calls := calls w
                            @ [CallCount (throttleQuery s (Opts_Target opts) (now w))]\<rparr>))
     \<and> (\<forall>s nw. throttleQuery s (Opts_Target opts) nw =
            [(''target.type'', BStr (Target_Type (Opts_Target opts))),
             (''target.value'', BStr (Target_Value (Opts_Target opts))),
             (''starttime'', BDoc [(''$gt'', BTime (nw - ThrottlingSpec_Time s))])]
            @ (if ThrottlingSpec_KindName s \<noteq> []
               then [(''kind.name'', BStr (ThrottlingSpec_KindName s))] else []))"
proof (intro conjI allI impI)
  fix s
  assume "TI (Target_Type (Opts_Target opts) @ ''_'' @ Kind_Name k) = Some s"
  then show "getThrottling TI (Opts_Target opts) k = Some s"
    by (simp add: getThrottling_def)
next
  assume "TI (Target_Type (Opts_Target opts) @ ''_'' @ Kind_Name k) = None"
  then show "getThrottling TI (Opts_Target opts) k = TI (Target_Type (Opts_Target opts))"
    by (simp add: getThrottling_def split: option.splits)
next
  fix s
  assume a: "getThrottling TI (Opts_Target opts) k = Some s
              \<and> (ThrottlingSpec_Max s \<le> 0 \<or> ThrottlingSpec_Time s \<le> 0)"
  have "newEvt_throttle X TI (Opts_Target opts) k w'
          = newEvt_throttle X Map.empty (Opts_Target opts) k w'" for w'
    using a by (simp add: newEvt_throttle_inactive newEvt_throttle_empty)
  then show "newEvt X TI (Some opts) w = newEvt X Map.empty (Some opts) w"
    by (rule newEvt_throttle_cong [OF kind])
next
  fix s
  assume a: "getThrottling TI (Opts_Target opts) k = Some s
              \<and> ThrottlingSpec_Max s > 0 \<and> ThrottlingSpec_Time s > 0
              \<and> faults w = []
              \<and> Target_IsValid (Opts_Target opts)
              \<and> (AllowedPermission_Scheme (Opts_Allowed opts) \<noteq> []
                  \<or> AllowedPermission_Contexts (Opts_Allowed opts) \<noteq> [])
              \<and> (Opts_Cancelable opts
                  \<longrightarrow> AllowedPermission_Scheme (Opts_AllowedCancel opts) \<noteq> []
                      \<or> AllowedPermission_Contexts (Opts_AllowedCancel opts) \<noteq> [])
              \<and> ThrottlingSpec_Max s
                  \<le> int (length (filter
                        (queryMatches X (Some (throttleQuery s (Opts_Target opts) (now w))))
                        (rows w)))"
  then show "newEvt X TI (Some opts) w =
                ((None, Some (ErrThrottled s (Opts_Target opts))),
                 w\<lparr>updaterStarted := True,
                   calls := calls w
                     @ [CallConn, CallCount (throttleQuery s (Opts_Target opts) (now w))]\<rparr>)"
    using newEvt_throttled [OF kind, where X = X and TI = TI and s = s and w = w] by blast
next
  fix s
  assume "getThrottling TI (Opts_Target opts) k = Some s
              \<and> ThrottlingSpec_Max s > 0 \<and> ThrottlingSpec_Time s > 0
              \<and> faults w = []
              \<and> int (length (filter
                        (queryMatches X (Some (throttleQuery s (Opts_Target opts) (now w))))
                        (rows w))) < ThrottlingSpec_Max s"
  then show "newEvt_throttle X TI (Opts_Target opts) k w =
                (None, w\<lparr>calls := calls w
                            @ [CallCount (throttleQuery s (Opts_Target opts) (now w))]\<rparr>)"
    by (simp add: newEvt_throttle_below)
next
  fix s nw
  show "throttleQuery s (Opts_Target opts) nw =
            [(''target.type'', BStr (Target_Type (Opts_Target opts))),
             (''target.value'', BStr (Target_Value (Opts_Target opts))),
             (''starttime'', BDoc [(''$gt'', BTime (nw - ThrottlingSpec_Time s))])]
            @ (if ThrottlingSpec_KindName s \<noteq> []
               then [(''kind.name'', BStr (ThrottlingSpec_KindName s))] else [])"
    by (rule throttleQuery_shape)
qed

theorem throttling_on_creation_witness:
  "getThrottling (SetThrottling deploySpec (SetThrottling (appSpec 1) Map.empty))
      appTarget deployKind = Some deploySpec
   \<and> getThrottling (SetThrottling (appSpec 1) Map.empty) appTarget deployKind = Some (appSpec 1)
   \<and> newEvt simExt (SetThrottling (appSpec 0) Map.empty) (Some deployOpts) zeroWorld
       = newEvt simExt Map.empty (Some deployOpts) zeroWorld
   \<and> newEvt simExt (SetThrottling (appSpec 1) Map.empty) (Some deployOpts) (lockedWorld 1000 900)
       = ((None, Some (ErrThrottled (appSpec 1) appTarget)),
          (lockedWorld 1000 900)\<lparr>calls :=
             [CallConn, CallCount (throttleQuery (appSpec 1) appTarget 1000)]\<rparr>)
   \<and> newEvt_throttle simExt (SetThrottling (appSpec 2) Map.empty) appTarget deployKind
         (lockedWorld 1000 900)
       = (None, (lockedWorld 1000 900)\<lparr>calls :=
             [CallCount (throttleQuery (appSpec 2) appTarget 1000)]\<rparr>)"
proof -
  have k: "newEvt_kind deployOpts = Inr deployKind"
    by (simp add: newEvt_kind_def deployOpts_def deployKind_def KindTypePermission_def)
  have t: "Opts_Target deployOpts = appTarget"
    by (simp add: deployOpts_def)
  have c: "length (filter (queryMatches simExt (Some (throttleQuery (appSpec mx) appTarget 1000)))
             (rows (lockedWorld 1000 900))) = 1" for mx
    by (simp add: simExt_def simMatches_def simClause_def throttleQuery_def appSpec_def
        appTarget_def rows_def lockedWorld_def heldRow_def)
  have g1: "getThrottling (SetThrottling deploySpec (SetThrottling (appSpec 1) Map.empty))
      appTarget deployKind = Some deploySpec"
    using throttling_on_creation [OF k,
        where TI = "SetThrottling deploySpec (SetThrottling (appSpec 1) Map.empty)"]
    by (simp add: t SetThrottling_def deploySpec_def appSpec_def appTarget_def deployKind_def)
  have g2: "getThrottling (SetThrottling (appSpec mx) Map.empty) appTarget deployKind
              = Some (appSpec mx)" for mx
    using throttling_on_creation [OF k, where TI = "SetThrottling (appSpec mx) Map.empty"]
    by (simp add: t SetThrottling_def appSpec_def appTarget_def deployKind_def)
  have g3: "newEvt simExt (SetThrottling (appSpec 0) Map.empty) (Some deployOpts) zeroWorld
       = newEvt simExt Map.empty (Some deployOpts) zeroWorld"
    using throttling_on_creation [OF k, where TI = "SetThrottling (appSpec 0) Map.empty"
        and X = simExt and w = zeroWorld] g2 [of 0]
    by (simp add: t appSpec_def)
  have g4: "newEvt simExt (SetThrottling (appSpec 1) Map.empty) (Some deployOpts) (lockedWorld 1000 900)
       = ((None, Some (ErrThrottled (appSpec 1) appTarget)),
          (lockedWorld 1000 900)\<lparr>calls :=
             [CallConn, CallCount (throttleQuery (appSpec 1) appTarget 1000)]\<rparr>)"
    using throttling_on_creation [OF k, where TI = "SetThrottling (appSpec 1) Map.empty"
        and X = simExt and w = "lockedWorld 1000 900"] g2 [of 1] c [of 1]
    by (simp add: t) (simp add: appSpec_def lockedWorld_def deployOpts_def appTarget_def
        Target_IsValid_def)
  have g5: "newEvt_throttle simExt (SetThrottling (appSpec 2) Map.empty) appTarget deployKind
         (lockedWorld 1000 900)
       = (None, (lockedWorld 1000 900)\<lparr>calls :=
             [CallCount (throttleQuery (appSpec 2) appTarget 1000)]\<rparr>)"
    using throttling_on_creation [OF k, where TI = "SetThrottling (appSpec 2) Map.empty"
        and X = simExt and w = "lockedWorld 1000 900"] g2 [of 2] c [of 2]
    by (simp add: t) (simp add: appSpec_def lockedWorld_def)
  from g1 g2 [of 1] g3 g4 g5 show ?thesis by blast
qed

section \<open>Completion of a cancelled event\<close>

lemma makeBSONRaw_nil: "makeBSONRaw X None = Inr emptyRaw"
  by (simp add: makeBSONRaw_def)

lemma setError_fields:
  "ID (setError X evtErr d) = ID d"
  "UniqueID (setError X evtErr d) = UniqueID d"
  "Target (setError X evtErr d) = Target d"
  "Running (setError X evtErr d) = Running d"
  by (simp_all add: setError_def split: option.splits)




section \<open>Creation on a held target\<close>

lemma newEvt_loop_exit:
  "\<not> i < maxRetries + 1 \<Longrightarrow> newEvt_loop X opts evt i maxRetries err w = ((None, err), w)"
  by (subst newEvt_loop.simps) simp

lemma newEvt_loop_inserted:
  "i < maxRetries + 1 \<Longrightarrow> coll_Insert (eventData evt) w = (None, w1) \<Longrightarrow>
   newEvt_loop X opts evt i maxRetries err w = newEvt_inserted X opts evt w1"
  by (subst newEvt_loop.simps) simp

lemma newEvt_loop_dup:
  "i < maxRetries + 1 \<Longrightarrow> coll_Insert (eventData evt) w = (Some ierr, w1) \<Longrightarrow>
   mgo_IsDup ierr \<Longrightarrow> newEvt_dup X evt i maxRetries ierr w1 = (maxRetries', err', w2) \<Longrightarrow>
   newEvt_loop X opts evt i maxRetries err w = newEvt_loop X opts evt (Suc i) maxRetries' err' w2"
  by (subst newEvt_loop.simps) simp

lemma newEvt_loop_fail:
  "i < maxRetries + 1 \<Longrightarrow> coll_Insert (eventData evt) w = (Some ierr, w1) \<Longrightarrow>
   \<not> mgo_IsDup ierr \<Longrightarrow>
   newEvt_loop X opts evt i maxRetries err w = ((None, Some ierr), w1)"
  by (subst newEvt_loop.simps) simp

lemma newEvt_setup_event:
  assumes "newEvt_setup X TI opts w = (Inr evt, w1)"
  shows "ID (eventData evt) =
           (if Opts_DisableLock opts
            then \<lparr>eventID_Target = zeroTarget, eventID_ObjId = UniqueID (eventData evt)\<rparr>
            else \<lparr>eventID_Target = Opts_Target opts, eventID_ObjId = []\<rparr>)"
  using assms
  by (auto simp: newEvt_setup_def newEvt_event_def Let_def bson_NewObjectId_def
      split: if_splits sum.splits prod.splits option.splits)

lemma checkIsExpired_live:
  assumes "faults w = []" and "map_of (store w) (eventID_GetBSON i) = Some row"
    and "now w \<le> LockUpdateTime row + lockExpireTimeout"
  shows "checkIsExpired X i w = (False, w\<lparr>calls := calls w @ [CallFindId (eventID_GetBSON i)]\<rparr>)"
  using assms by (simp add: checkIsExpired_def coll_FindId_nofault_found Let_def)

lemma checkIsExpired_expired:
  assumes "faults w = []" and "map_of (store w) (eventID_GetBSON i) = Some row"
    and "now w > LockUpdateTime row + lockExpireTimeout"
  shows "checkIsExpired X i w =
          (True,
           snd (snd (Done X \<lparr>eventData = row\<lparr>ID := eventID_SetBSON (eventID_GetBSON i)\<rparr>,
                              logBuffer = []\<rparr>
                       (Some (ErrErrorf ''event expired, no update for %v''
                                [FDur (now w - LockUpdateTime row)]))
                       (w\<lparr>calls := calls w @ [CallFindId (eventID_GetBSON i)]\<rparr>))))"
  using assms by (simp add: checkIsExpired_def coll_FindId_nofault_found Let_def)

lemma Event_done_locked:
  assumes nofault: "faults w = []"
    and locked: "eventID_ObjId (ID (eventData e)) = []"
    and uid: "UniqueID (eventData e) \<noteq> []"
    and row: "map_of (store w) (IdTarget (eventID_Target (ID (eventData e)))) = Some row"
    and fresh: "map_of (store w) (IdObj (UniqueID (eventData e))) = None"
  shows "Event_done X e evtErr None False w =
          (None,
           e\<lparr>eventData := (doneRow X e evtErr (now w))
                \<lparr>OtherCustomData := OtherCustomData row,
                 ID := \<lparr>eventID_Target = zeroTarget, eventID_ObjId = UniqueID (eventData e)\<rparr>\<rparr>\<rparr>,
           w\<lparr>updaterSet := updaterSet w - {Target (eventData e)},
             calls := calls w @ [CallConn,
                                 CallFindId (IdTarget (eventID_Target (ID (eventData e)))),
                                 CallInsert (IdObj (UniqueID (eventData e))),
                                 CallRemoveId (IdTarget (eventID_Target (ID (eventData e))))],
             store := filter (\<lambda>r. fst r \<noteq> IdTarget (eventID_Target (ID (eventData e))))
                        (store w @
                         [(IdObj (UniqueID (eventData e)),
                           (doneRow X e evtErr (now w))
                             \<lparr>OtherCustomData := OtherCustomData row,
                              ID := \<lparr>eventID_Target = zeroTarget,
                                     eventID_ObjId = UniqueID (eventData e)\<rparr>\<rparr>)])\<rparr>)"
proof -
  have key: "eventID_GetBSON (ID (eventData e)) = IdTarget (eventID_Target (ID (eventData e)))"
    using locked by (simp add: eventID_GetBSON_def)
  have akey: "eventID_GetBSON \<lparr>eventID_Target = zeroTarget, eventID_ObjId = UniqueID (eventData e)\<rparr>
                = IdObj (UniqueID (eventData e))"
    using uid by (simp add: eventID_GetBSON_def)
  show ?thesis
    using nofault locked row fresh
    by (simp add: Event_done_def db_Conn_nofault makeBSONRaw_nil Let_def setError_fields key akey
        coll_FindId_nofault_found coll_Insert_nofault_new coll_RemoveId_nofault_found
        doneRow_def map_add_def)
qed

lemma newEvt_existing_found:
  assumes "faults w = []"
    and "map_of (store w) (eventID_GetBSON (ID (eventData evt))) = Some row"
  shows "newEvt_existing evt maxRetries w =
          (maxRetries,
           Some (ErrEventLocked
                   \<lparr>eventData = row\<lparr>ID := eventID_SetBSON (eventID_GetBSON (ID (eventData evt)))\<rparr>,
                    logBuffer = []\<rparr>),
           w\<lparr>calls := calls w @ [CallFindId (eventID_GetBSON (ID (eventData evt)))]\<rparr>)"
  using assms by (simp add: newEvt_existing_def coll_FindId_nofault_found)

lemma newEvt_locked_live:
  assumes id: "ID (eventData evt) = \<lparr>eventID_Target = t, eventID_ObjId = []\<rparr>"
    and nofault: "faults w1 = []"
    and held: "map_of (store w1) (IdTarget t) = Some row"
    and live: "now w1 \<le> LockUpdateTime row + lockExpireTimeout"
  shows "newEvt_loop X opts evt 0 (Suc 0) None w1 =
          ((None, Some (ErrEventLocked
                          \<lparr>eventData = row\<lparr>ID := \<lparr>eventID_Target = t, eventID_ObjId = []\<rparr>\<rparr>,
                           logBuffer = []\<rparr>)),
           w1\<lparr>calls := calls w1 @ [CallInsert (IdTarget t), CallFindId (IdTarget t),
                                    CallFindId (IdTarget t), CallInsert (IdTarget t),
                                    CallFindId (IdTarget t)]\<rparr>)"
proof -
  let ?k = "IdTarget t"
  let ?locked = "Some (ErrEventLocked
                          \<lparr>eventData = row\<lparr>ID := \<lparr>eventID_Target = t, eventID_ObjId = []\<rparr>\<rparr>,
                           logBuffer = []\<rparr>)"
  let ?dup = "ErrDup ''E11000 duplicate key error''"
  have key: "eventID_GetBSON (ID (eventData evt)) = ?k"
    by (simp add: id eventID_GetBSON_def)
  have set: "eventID_SetBSON ?k = \<lparr>eventID_Target = t, eventID_ObjId = []\<rparr>"
    by (simp add: eventID_SetBSON_def)
  define wa where "wa = w1\<lparr>calls := calls w1 @ [CallInsert ?k]\<rparr>"
  define wb where "wb = wa\<lparr>calls := calls wa @ [CallFindId ?k]\<rparr>"
  define wc where "wc = wb\<lparr>calls := calls wb @ [CallFindId ?k]\<rparr>"
  define wd where "wd = wc\<lparr>calls := calls wc @ [CallInsert ?k]\<rparr>"
  define we where "we = wd\<lparr>calls := calls wd @ [CallFindId ?k]\<rparr>"
  have ins1: "coll_Insert (eventData evt) w1 = (Some ?dup, wa)"
    using nofault held by (simp add: coll_Insert_nofault_dup key wa_def)
  have exp1: "checkIsExpired X (ID (eventData evt)) wa = (False, wb)"
    using nofault held live checkIsExpired_live [of wa "ID (eventData evt)" row X]
    by (simp add: key wa_def wb_def)
  have ex1: "newEvt_existing evt (Suc 0) wb = (Suc 0, ?locked, wc)"
    using nofault held newEvt_existing_found [of wb evt row "Suc 0"]
    by (simp add: key set wa_def wb_def wc_def)
  have dup1: "newEvt_dup X evt 0 (Suc 0) ?dup wa = (Suc 0, ?locked, wc)"
    by (simp add: newEvt_dup_def exp1 ex1)
  have ins2: "coll_Insert (eventData evt) wc = (Some ?dup, wd)"
    using nofault held coll_Insert_nofault_dup [of wc "eventData evt" row]
    by (simp add: key wa_def wb_def wc_def wd_def)
  have ex2: "newEvt_existing evt (Suc 0) wd = (Suc 0, ?locked, we)"
    using nofault held newEvt_existing_found [of wd evt row "Suc 0"]
    by (simp add: key set wa_def wb_def wc_def wd_def we_def)
  have dup2: "newEvt_dup X evt (Suc 0) (Suc 0) ?dup wd = (Suc 0, ?locked, we)"
    by (simp add: newEvt_dup_def ex2)
  have "newEvt_loop X opts evt 0 (Suc 0) None w1 = newEvt_loop X opts evt (Suc 0) (Suc 0) ?locked wc"
    by (rule newEvt_loop_dup [OF _ ins1 _ dup1]) (simp_all add: mgo_IsDup_def)
  also have "\<dots> = newEvt_loop X opts evt (Suc (Suc 0)) (Suc 0) ?locked we"
    by (rule newEvt_loop_dup [OF _ ins2 _ dup2]) (simp_all add: mgo_IsDup_def)
  also have "\<dots> = ((None, ?locked), we)"
    by (rule newEvt_loop_exit) simp
  finally show ?thesis
    by (simp add: wa_def wb_def wc_def wd_def we_def)
qed

lemma newEvt_locked_expired:
  assumes id: "ID (eventData evt) = \<lparr>eventID_Target = t, eventID_ObjId = []\<rparr>"
    and nofault: "faults w1 = []"
    and held: "map_of (store w1) (IdTarget t) = Some row"
    and expired: "now w1 > LockUpdateTime row + lockExpireTimeout"
    and uid: "UniqueID row \<noteq> []"
    and fresh: "map_of (store w1) (IdObj (UniqueID row)) = None"
  shows "newEvt_loop X opts evt 0 (Suc 0) None w1 =
          newEvt_inserted X opts evt
            (w1\<lparr>updaterSet := updaterSet w1 - {Target row},
                calls := calls w1 @ [CallInsert (IdTarget t), CallFindId (IdTarget t),
                                    CallConn, CallFindId (IdTarget t),
                                    CallInsert (IdObj (UniqueID row)),
                                    CallRemoveId (IdTarget t), CallInsert (IdTarget t)],
                store := filter (\<lambda>r. fst r \<noteq> IdTarget t)
                           (store w1 @
                            [(IdObj (UniqueID row),
                              row\<lparr>ID := \<lparr>eventID_Target = zeroTarget,
                                           eventID_ObjId = UniqueID row\<rparr>,
                                  Error := sprintf X ''event expired, no update for %v''
                                             [FDur (now w1 - LockUpdateTime row)],
                                  EndTime := now w1,
                                  EndCustomData := emptyRaw,
                                  Running := False,
                                  Log := []\<rparr>)])
                         @ [(IdTarget t, eventData evt)]\<rparr>)"
proof -
  let ?k = "IdTarget t"
  let ?dup = "ErrDup ''E11000 duplicate key error''"
  let ?arch = "row\<lparr>ID := \<lparr>eventID_Target = zeroTarget, eventID_ObjId = UniqueID row\<rparr>,
                    Error := sprintf X ''event expired, no update for %v''
                               [FDur (now w1 - LockUpdateTime row)],
                    EndTime := now w1,
                    EndCustomData := emptyRaw,
                    Running := False,
                    Log := []\<rparr>"
  let ?e = "\<lparr>eventData = row\<lparr>ID := \<lparr>eventID_Target = t, eventID_ObjId = []\<rparr>\<rparr>, logBuffer = []\<rparr>"
  let ?err = "ErrErrorf ''event expired, no update for %v'' [FDur (now w1 - LockUpdateTime row)]"
  have key: "eventID_GetBSON (ID (eventData evt)) = ?k"
    by (simp add: id eventID_GetBSON_def)
  have set: "eventID_SetBSON ?k = \<lparr>eventID_Target = t, eventID_ObjId = []\<rparr>"
    by (simp add: eventID_SetBSON_def)
  define wa where "wa = w1\<lparr>calls := calls w1 @ [CallInsert ?k]\<rparr>"
  define wb where "wb = wa\<lparr>calls := calls wa @ [CallFindId ?k]\<rparr>"
  define wc where "wc = wb\<lparr>updaterSet := updaterSet wb - {Target row},
                          calls := calls wb @ [CallConn, CallFindId ?k,
                                               CallInsert (IdObj (UniqueID row)), CallRemoveId ?k],
                          store := filter (\<lambda>r. fst r \<noteq> ?k)
                                     (store wb @ [(IdObj (UniqueID row), ?arch)])\<rparr>"
  define wd where "wd = wc\<lparr>calls := calls wc @ [CallInsert ?k],
                          store := store wc @ [(?k, eventData evt)]\<rparr>"
  have ins1: "coll_Insert (eventData evt) w1 = (Some ?dup, wa)"
    using nofault held by (simp add: coll_Insert_nofault_dup key wa_def)
  have arch: "(doneRow X ?e (Some ?err) (now w1))
                \<lparr>OtherCustomData := OtherCustomData row,
                 ID := \<lparr>eventID_Target = zeroTarget, eventID_ObjId = UniqueID row\<rparr>\<rparr>
              = ?arch"
    by (simp add: doneRow_def setError_def errorMsg_def)
  have dn: "Done X ?e (Some ?err) wb = (None, ?e\<lparr>eventData := ?arch\<rparr>, wc)"
    using nofault held fresh uid
      Event_done_locked [of wb ?e row X "Some ?err"]
    by (simp add: Done_def arch wa_def wb_def wc_def)
  have exp1: "checkIsExpired X (ID (eventData evt)) wa = (True, wc)"
    using nofault held expired checkIsExpired_expired [of wa "ID (eventData evt)" row X]
    by (simp add: key set wa_def) (simp add: dn [unfolded wb_def wa_def, simplified])
  have dup1: "newEvt_dup X evt 0 (Suc 0) ?dup wa = (Suc 0, Some ?dup, wc)"
    by (simp add: newEvt_dup_def exp1)
  have ins2: "coll_Insert (eventData evt) wc = (None, wd)"
    using nofault coll_Insert_nofault_new [of wc "eventData evt"]
    by (simp add: key wa_def wb_def wc_def wd_def map_of_filter_same)
  have "newEvt_loop X opts evt 0 (Suc 0) None w1 = newEvt_loop X opts evt (Suc 0) (Suc 0) (Some ?dup) wc"
    by (rule newEvt_loop_dup [OF _ ins1 _ dup1]) (simp_all add: mgo_IsDup_def)
  also have "\<dots> = newEvt_inserted X opts evt wd"
    by (rule newEvt_loop_inserted [OF _ ins2]) simp
  finally show ?thesis
    by (simp add: wa_def wb_def wc_def wd_def)
qed

lemma newEvt_retry_still_dup:
  assumes ins1: "coll_Insert (eventData evt) w1 = (Some e1, wa)" and d1: "mgo_IsDup e1"
    and exp: "checkIsExpired X (ID (eventData evt)) wa = (True, wb)"
    and ins2: "coll_Insert (eventData evt) wb = (Some e2, wc)" and d2: "mgo_IsDup e2"
    and found: "coll_FindId (eventID_GetBSON (ID (eventData evt))) wc = (Inr existing, wd)"
  shows "newEvt_loop X opts evt 0 (Suc 0) None w1 =
          ((None, Some (ErrEventLocked \<lparr>eventData = existing, logBuffer = []\<rparr>)), wd)"
proof -
  let ?locked = "Some (ErrEventLocked \<lparr>eventData = existing, logBuffer = []\<rparr>)"
  have dup1: "newEvt_dup X evt 0 (Suc 0) e1 wa = (Suc 0, Some e1, wb)"
    by (simp add: newEvt_dup_def exp)
  have dup2: "newEvt_dup X evt (Suc 0) (Suc 0) e2 wc = (Suc 0, ?locked, wd)"
    by (simp add: newEvt_dup_def newEvt_existing_def found)
  have "newEvt_loop X opts evt 0 (Suc 0) None w1 = newEvt_loop X opts evt (Suc 0) (Suc 0) (Some e1) wb"
    by (rule newEvt_loop_dup [OF _ ins1 d1 dup1]) simp
  also have "\<dots> = newEvt_loop X opts evt (Suc (Suc 0)) (Suc 0) ?locked wd"
    by (rule newEvt_loop_dup [OF _ ins2 d2 dup2]) simp
  also have "\<dots> = ((None, ?locked), wd)"
    by (rule newEvt_loop_exit) simp
  finally show ?thesis .
qed

lemma setup_run:
  "newEvt_setup simExt Map.empty deployOpts
     (updater_start ((lockedWorld nw 900)\<lparr>faults := None # fs\<rparr>))
     = (Inr (deployEvent nw),
        (lockedWorld nw 900)\<lparr>faults := fs, calls := [CallConn], objIdCounter := 2\<rparr>)"
  by (simp add: newEvt_setup_def updater_start_def Target_IsValid_def newEvt_kind_def
      newEvt_owner_def newEvt_throttle_def getThrottling_def makeBSONRaw_def
      bson_NewObjectId_def deployEvent_def store_defs deployOpts_def deployKind_def
      appTarget_def heldRow_def lockedWorld_def simExt_def zeroCancelInfo_def zeroTarget_def
      emptyRaw_def
      KindTypePermission_def OwnerTypeUser_def numeral_2_eq_2)

lemma setup_run0:
  "newEvt_setup simExt Map.empty deployOpts (updater_start (lockedWorld nw 900))
     = (Inr (deployEvent nw), (lockedWorld nw 900)\<lparr>calls := [CallConn], objIdCounter := 2\<rparr>)"
  by (simp add: newEvt_setup_def updater_start_def Target_IsValid_def newEvt_kind_def
      newEvt_owner_def newEvt_throttle_def getThrottling_def makeBSONRaw_def
      bson_NewObjectId_def deployEvent_def store_defs deployOpts_def deployKind_def
      appTarget_def heldRow_def lockedWorld_def simExt_def zeroCancelInfo_def zeroTarget_def
      emptyRaw_def
      KindTypePermission_def OwnerTypeUser_def numeral_2_eq_2)

text \<open>\<open>New\<close> and \<open>NewInternal\<close> hand options that pass their checks to \<open>newEvt\<close>.\<close>

lemma New_newEvt:
  assumes "Opts_Kind opts \<noteq> None"
    and "Opts_Owner opts \<noteq> None \<or> Owner_Name (Opts_RawOwner opts) \<noteq> []
         \<or> Owner_Type (Opts_RawOwner opts) \<noteq> []"
  shows "New X TI (Some opts) w = newEvt X TI (Some opts) w"
  using assms by (auto simp: New_def)

lemma NewInternal_newEvt:
  assumes "Opts_Owner opts = None" and "Opts_Kind opts = None"
    and "Opts_InternalKind opts \<noteq> []"
  shows "NewInternal X TI (Some opts) w = newEvt X TI (Some opts) w"
  using assms by (simp add: NewInternal_def)

text \<open>
  C1.  Creation with locking enabled has reached the insert loop in state \<open>w1\<close> with the new
  row \<open>evt\<close>.  When the target's key is held by a row whose \<open>LockUpdateTime\<close> is within
  \<open>lockExpireTimeout\<close>, five minutes, of now, and the store has no fault, creation fails with
  \<open>ErrEventLocked\<close> carrying that row.  When the holder is expired, \<open>Done\<close> runs on it with the
  error \<open>event expired, no update for ...\<close>: the holder is stored under its unique id, not
  running, and its locked row is removed; the insert is tried once more, succeeds, and
  creation goes on as after a first successful insert.  Whatever the faults, when the
  insert is refused as a duplicate, the holder is found expired, the one retry is refused as
  a duplicate again and the holder can be read, creation fails with \<open>ErrEventLocked\<close>
  carrying the row read.
\<close>

theorem newEvt_duplicate_key:
  assumes prep: "newEvt_setup X TI opts (updater_start w) = (Inr evt, w1)"
    and lock: "\<not> Opts_DisableLock opts"
  shows
    "(\<forall>row. faults w1 = []
            \<and> map_of (store w1) (IdTarget (Opts_Target opts)) = Some row
            \<and> now w1 \<le> LockUpdateTime row + lockExpireTimeout
        \<longrightarrow> newEvt X TI (Some opts) w =
              ((None, Some (ErrEventLocked
                              \<lparr>eventData = row\<lparr>ID := \<lparr>eventID_Target = Opts_Target opts,
                                                        eventID_ObjId = []\<rparr>\<rparr>,
                               logBuffer = []\<rparr>)),
               w1\<lparr>calls := calls w1
                    @ [CallInsert (IdTarget (Opts_Target opts)),
                       CallFindId (IdTarget (Opts_Target opts)),
                       CallFindId (IdTarget (Opts_Target opts)),
                       CallInsert (IdTarget (Opts_Target opts)),
                       CallFindId (IdTarget (Opts_Target opts))]\<rparr>))
     \<and> (\<forall>row. faults w1 = []
            \<and> map_of (store w1) (IdTarget (Opts_Target opts)) = Some row
            \<and> now w1 > LockUpdateTime row + lockExpireTimeout
            \<and> UniqueID row \<noteq> []
            \<and> map_of (store w1) (IdObj (UniqueID row)) = None
        \<longrightarrow> newEvt X TI (Some opts) w =
              newEvt_inserted X opts evt
                (w1\<lparr>updaterSet := updaterSet w1 - {Target row},
                    calls := calls w1
                      @ [CallInsert (IdTarget (Opts_Target opts)),
                         CallFindId (IdTarget (Opts_Target opts)),
                         CallConn,
                         CallFindId (IdTarget (Opts_Target opts)),
                         CallInsert (IdObj (UniqueID row)),
                         CallRemoveId (IdTarget (Opts_Target opts)),
                         CallInsert (IdTarget (Opts_Target opts))],
                    store := filter (\<lambda>r. fst r \<noteq> IdTarget (Opts_Target opts))
                               (store w1 @
                                [(IdObj (UniqueID row),
                                  row\<lparr>ID := \<lparr>eventID_Target = zeroTarget,
                                               eventID_ObjId = UniqueID row\<rparr>,
                                      Error := sprintf X ''event expired, no update for %v''
                                                 [FDur (now w1 - LockUpdateTime row)],
                                      EndTime := now w1,
                                      EndCustomData := emptyRaw,
                                      Running := False,
                                      Log := []\<rparr>)])
                             @ [(IdTarget (Opts_Target opts), eventData evt)]\<rparr>))
     \<and> (\<forall>e1 wa wb e2 wc existing wd.
            coll_Insert (eventData evt) w1 = (Some e1, wa) \<and> mgo_IsDup e1
            \<and> checkIsExpired X (ID (eventData evt)) wa = (True, wb)
            \<and> coll_Insert (eventData evt) wb = (Some e2, wc) \<and> mgo_IsDup e2
            \<and> coll_FindId (IdTarget (Opts_Target opts)) wc = (Inr existing, wd)
        \<longrightarrow> newEvt X TI (Some opts) w =
              ((None, Some (ErrEventLocked \<lparr>eventData = existing, logBuffer = []\<rparr>)), wd))
     \<and> lockExpireTimeout = 5 * 60 * 1000000000"
proof -
  have id: "ID (eventData evt) = \<lparr>eventID_Target = Opts_Target opts, eventID_ObjId = []\<rparr>"
    using newEvt_setup_event [OF prep] lock by simp
  have key: "eventID_GetBSON (ID (eventData evt)) = IdTarget (Opts_Target opts)"
    by (simp add: id eventID_GetBSON_def)
  have run: "newEvt X TI (Some opts) w = newEvt_loop X opts evt 0 (Suc 0) None w1"
    by (simp add: newEvt_def prep Let_def)
  show ?thesis
  proof (intro conjI allI impI)
    fix row
    assume "faults w1 = []
            \<and> map_of (store w1) (IdTarget (Opts_Target opts)) = Some row
            \<and> now w1 \<le> LockUpdateTime row + lockExpireTimeout"
    then show "newEvt X TI (Some opts) w =
              ((None, Some (ErrEventLocked
                              \<lparr>eventData = row\<lparr>ID := \<lparr>eventID_Target = Opts_Target opts,
                                                        eventID_ObjId = []\<rparr>\<rparr>,
                               logBuffer = []\<rparr>)),
               w1\<lparr>calls := calls w1
                    @ [CallInsert (IdTarget (Opts_Target opts)),
                       CallFindId (IdTarget (Opts_Target opts)),
                       CallFindId (IdTarget (Opts_Target opts)),
                       CallInsert (IdTarget (Opts_Target opts)),
                       CallFindId (IdTarget (Opts_Target opts))]\<rparr>)"
      using newEvt_locked_live [OF id, of w1 row X opts] by (simp add: run)
  next
    fix row
    assume "faults w1 = []
            \<and> map_of (store w1) (IdTarget (Opts_Target opts)) = Some row
            \<and> now w1 > LockUpdateTime row + lockExpireTimeout
            \<and> UniqueID row \<noteq> []
            \<and> map_of (store w1) (IdObj (UniqueID row)) = None"
    then show "newEvt X TI (Some opts) w =
              newEvt_inserted X opts evt
                (w1\<lparr>updaterSet := updaterSet w1 - {Target row},
                    calls := calls w1
                      @ [CallInsert (IdTarget (Opts_Target opts)),
                         CallFindId (IdTarget (Opts_Target opts)),
                         CallConn,
                         CallFindId (IdTarget (Opts_Target opts)),
                         CallInsert (IdObj (UniqueID row)),
                         CallRemoveId (IdTarget (Opts_Target opts)),
                         CallInsert (IdTarget (Opts_Target opts))],
                    store := filter (\<lambda>r. fst r \<noteq> IdTarget (Opts_Target opts))
                               (store w1 @
                                [(IdObj (UniqueID row),
                                  row\<lparr>ID := \<lparr>eventID_Target = zeroTarget,
                                               eventID_ObjId = UniqueID row\<rparr>,
                                      Error := sprintf X ''event expired, no update for %v''
                                                 [FDur (now w1 - LockUpdateTime row)],
                                      EndTime := now w1,
                                      EndCustomData := emptyRaw,
                                      Running := False,
                                      Log := []\<rparr>)])
                             @ [(IdTarget (Opts_Target opts), eventData evt)]\<rparr>)"
      using newEvt_locked_expired [OF id, of w1 row X opts] by (simp add: run)
  next
    fix e1 wa wb e2 wc existing wd
    assume "coll_Insert (eventData evt) w1 = (Some e1, wa) \<and> mgo_IsDup e1
            \<and> checkIsExpired X (ID (eventData evt)) wa = (True, wb)
            \<and> coll_Insert (eventData evt) wb = (Some e2, wc) \<and> mgo_IsDup e2
            \<and> coll_FindId (IdTarget (Opts_Target opts)) wc = (Inr existing, wd)"
    then show "newEvt X TI (Some opts) w =
              ((None, Some (ErrEventLocked \<lparr>eventData = existing, logBuffer = []\<rparr>)), wd)"
      using newEvt_retry_still_dup [of evt w1 e1 wa X wb e2 wc existing wd opts]
      by (simp add: run key)
  next
    show "lockExpireTimeout = 5 * 60 * 1000000000"
      by (simp add: lockExpireTimeout_def)
  qed
qed

theorem newEvt_duplicate_key_witness:
  "newEvt simExt Map.empty (Some deployOpts) (lockedWorld 1000 900)
     = ((None, Some (ErrEventLocked \<lparr>eventData = heldRow 900, logBuffer = []\<rparr>)),
        (lockedWorld 1000 900)
          \<lparr>calls := [CallConn, CallInsert (IdTarget appTarget), CallFindId (IdTarget appTarget),
                     CallFindId (IdTarget appTarget), CallInsert (IdTarget appTarget),
                     CallFindId (IdTarget appTarget)],
           objIdCounter := 2\<rparr>)
   \<and> newEvt simExt Map.empty (Some deployOpts) (lockedWorld 1000000000000 900)
     = ((Some (deployEvent 1000000000000), None),
        (lockedWorld 1000000000000 900)
          \<lparr>calls := [CallConn, CallInsert (IdTarget appTarget), CallFindId (IdTarget appTarget),
                     CallConn, CallFindId (IdTarget appTarget), CallInsert (IdObj ''held''),
                     CallRemoveId (IdTarget appTarget), CallInsert (IdTarget appTarget)],
           objIdCounter := 2,
           store := [(IdObj ''held'',
                      (heldRow 900)
                        \<lparr>ID := \<lparr>eventID_Target = zeroTarget, eventID_ObjId = ''held''\<rparr>,
                         Error := ''event expired, no update for %v'',
                         EndTime := 1000000000000,
                         Running := False\<rparr>),
                     (IdTarget appTarget, eventData (deployEvent 1000000000000))]\<rparr>)
   \<and> newEvt simExt Map.empty (Some deployOpts)
        ((lockedWorld 1000000000000 900)\<lparr>faults := [None, None, None, Some ''no route to host'']\<rparr>)
     = ((None, Some (ErrEventLocked \<lparr>eventData = heldRow 900, logBuffer = []\<rparr>)),
        (lockedWorld 1000000000000 900)
          \<lparr>calls := [CallConn, CallInsert (IdTarget appTarget), CallFindId (IdTarget appTarget),
                     CallConn, CallInsert (IdTarget appTarget), CallFindId (IdTarget appTarget)],
           objIdCounter := 2,
           updaterSet := {}\<rparr>)"
proof -
  have lock: "\<not> Opts_DisableLock deployOpts"
    by (simp add: deployOpts_def)
  have tgt: "Opts_Target deployOpts = appTarget"
    by (simp add: deployOpts_def)
  have live:
    "newEvt simExt Map.empty (Some deployOpts) (lockedWorld 1000 900)
     = ((None, Some (ErrEventLocked \<lparr>eventData = heldRow 900, logBuffer = []\<rparr>)),
        (lockedWorld 1000 900)
          \<lparr>calls := [CallConn, CallInsert (IdTarget appTarget), CallFindId (IdTarget appTarget),
                     CallFindId (IdTarget appTarget), CallInsert (IdTarget appTarget),
                     CallFindId (IdTarget appTarget)],
           objIdCounter := 2\<rparr>)"
    using newEvt_duplicate_key [OF setup_run0 [of 1000] lock]
    by (simp add: tgt) (simp add: lockedWorld_def heldRow_def lockExpireTimeout_def)
  have expired:
    "newEvt simExt Map.empty (Some deployOpts) (lockedWorld 1000000000000 900)
     = ((Some (deployEvent 1000000000000), None),
        (lockedWorld 1000000000000 900)
          \<lparr>calls := [CallConn, CallInsert (IdTarget appTarget), CallFindId (IdTarget appTarget),
                     CallConn, CallFindId (IdTarget appTarget), CallInsert (IdObj ''held''),
                     CallRemoveId (IdTarget appTarget), CallInsert (IdTarget appTarget)],
           objIdCounter := 2,
           store := [(IdObj ''held'',
                      (heldRow 900)
                        \<lparr>ID := \<lparr>eventID_Target = zeroTarget, eventID_ObjId = ''held''\<rparr>,
                         Error := ''event expired, no update for %v'',
                         EndTime := 1000000000000,
                         Running := False\<rparr>),
                     (IdTarget appTarget, eventData (deployEvent 1000000000000))]\<rparr>)"
    using newEvt_duplicate_key [OF setup_run0 [of 1000000000000] lock]
    by (simp add: tgt)
       (simp add: lockedWorld_def heldRow_def lockExpireTimeout_def newEvt_inserted_def
          simExt_def deployOpts_def appTarget_def emptyRaw_def)
  let ?w1 = "(lockedWorld 1000000000000 900)
               \<lparr>faults := [None, None, Some ''no route to host''], calls := [CallConn],
                objIdCounter := 2\<rparr>"
  let ?wa = "?w1\<lparr>faults := [None, Some ''no route to host''],
               calls := [CallConn, CallInsert (IdTarget appTarget)]\<rparr>"
  let ?wb = "?w1\<lparr>faults := [],
               calls := [CallConn, CallInsert (IdTarget appTarget), CallFindId (IdTarget appTarget),
                         CallConn],
               updaterSet := {}\<rparr>"
  let ?wc = "?wb\<lparr>calls := calls ?wb @ [CallInsert (IdTarget appTarget)]\<rparr>"
  let ?wd = "?wc\<lparr>calls := calls ?wc @ [CallFindId (IdTarget appTarget)]\<rparr>"
  let ?dup = "ErrDup ''E11000 duplicate key error''"
  have id: "ID (eventData (deployEvent nw)) = \<lparr>eventID_Target = appTarget, eventID_ObjId = []\<rparr>" for nw
    by (simp add: deployEvent_def newEvt_event_def deployOpts_def)
  have s1: "coll_Insert (eventData (deployEvent 1000000000000)) ?w1 = (Some ?dup, ?wa)"
    by (simp add: store_defs id eventID_GetBSON_def lockedWorld_def)
  have s2: "checkIsExpired simExt (ID (eventData (deployEvent 1000000000000))) ?wa = (True, ?wb)"
    by (simp add: checkIsExpired_def Done_def Event_done_def store_defs id eventID_GetBSON_def
        lockedWorld_def heldRow_def lockExpireTimeout_def Let_def)
  have s3: "coll_Insert (eventData (deployEvent 1000000000000)) ?wb = (Some ?dup, ?wc)"
    by (simp add: store_defs id eventID_GetBSON_def lockedWorld_def)
  have s4: "coll_FindId (IdTarget appTarget) ?wc = (Inr (heldRow 900), ?wd)"
    by (simp add: store_defs lockedWorld_def heldRow_def eventID_SetBSON_def)
  have faulty:
    "newEvt simExt Map.empty (Some deployOpts)
        ((lockedWorld 1000000000000 900)\<lparr>faults := [None, None, None, Some ''no route to host'']\<rparr>)
     = ((None, Some (ErrEventLocked \<lparr>eventData = heldRow 900, logBuffer = []\<rparr>)),
        (lockedWorld 1000000000000 900)
          \<lparr>calls := [CallConn, CallInsert (IdTarget appTarget), CallFindId (IdTarget appTarget),
                     CallConn, CallInsert (IdTarget appTarget), CallFindId (IdTarget appTarget)],
           objIdCounter := 2,
           updaterSet := {}\<rparr>)"
    using newEvt_duplicate_key [OF setup_run [where nw = 1000000000000 and fs = "[None, None, Some ''no route to host'']"] lock]
      s1 s2 s3 s4
    by (simp add: tgt mgo_IsDup_def) (simp add: lockedWorld_def)
  from live expired faulty show ?thesis by blast
qed

end
